theory Spec2Isabelle
  imports Main "HOL-Library.AList" "HOL-Library.Sublist"
begin

section \<open>JavaScript values and objects\<close>

text \<open>
  The plugin reads a host configuration object. Fields whose shape the code inspects at
  run time (\<open>instanceof Array\<close>, \<open>instanceof Function\<close>, the \<open>in\<close> operator, truthiness)
  are kept as untyped JavaScript values. A function value is identified by a number; the
  pipeline stage a factory \<open>JFn n\<close> returns when called is \<open>Created n\<close> below.
  An object is the list of its own enumerable properties in insertion order.
\<close>

datatype jsval =
    JUndefined
  | JNull
  | JBool bool
  | JNum int
  | JStr string
  | JArr "jsval list"
  | JObj "(string \<times> jsval) list"
  | JFn nat

type_synonym obj = "(string \<times> jsval) list"

fun truthy :: "jsval \<Rightarrow> bool" where
  "truthy JUndefined = False"
| "truthy JNull = False"
| "truthy (JBool b) = b"
| "truthy (JNum n) = (n \<noteq> 0)"
| "truthy (JStr s) = (s \<noteq> [])"
| "truthy (JArr xs) = True"
| "truthy (JObj ps) = True"
| "truthy (JFn n) = True"

fun instanceof_Array :: "jsval \<Rightarrow> bool" where
  "instanceof_Array (JArr xs) = True"
| "instanceof_Array v = False"

fun instanceof_Function :: "jsval \<Rightarrow> bool" where
  "instanceof_Function (JFn n) = True"
| "instanceof_Function v = False"

definition js_in :: "string \<Rightarrow> obj \<Rightarrow> bool" where
  \<comment> \<open>\<open>key in object\<close>\<close>
  "js_in k ob = (map_of ob k \<noteq> None)"

definition js_get :: "obj \<Rightarrow> string \<Rightarrow> jsval" where
  \<comment> \<open>\<open>object[key]\<close>: a missing property reads as \<open>undefined\<close>\<close>
  "js_get ob k = (case map_of ob k of None \<Rightarrow> JUndefined | Some v \<Rightarrow> v)"

definition js_set :: "string \<Rightarrow> jsval \<Rightarrow> obj \<Rightarrow> obj" where
  \<comment> \<open>\<open>object[key] = value\<close>: an existing property keeps its place, a new one is appended\<close>
  "js_set k v ob = AList.update k v ob"

definition js_keys :: "obj \<Rightarrow> string list" where
  \<comment> \<open>the keys a \<open>for (key in object)\<close> loop visits\<close>
  "js_keys ob = map fst ob"

section \<open>Strings\<close>

text \<open>
  \<open>String.prototype.indexOf\<close> returns the first position at which the query occurs, or
  \<open>-1\<close>; \<open>substr(n)\<close> drops the first \<open>n\<close> characters. Both are polymorphic in the
  character type, so they read the same over bytes and over UTF-16 code units.
\<close>

fun indexOf :: "'a list \<Rightarrow> 'a list \<Rightarrow> int" where
  "indexOf [] q = (if q = [] then 0 else - 1)"
| "indexOf (c # cs) q =
     (if prefix q (c # cs) then 0
      else (let r = indexOf cs q in if r < 0 then - 1 else r + 1))"

definition substr :: "'a list \<Rightarrow> nat \<Rightarrow> 'a list" where
  "substr s n = drop n s"

definition stripFromBeginning :: "'a list \<Rightarrow> 'a list \<Rightarrow> 'a list" where
  "stripFromBeginning subject query =
     (if query = [] then subject
      else if indexOf subject query = 0 then substr subject (length query)
      else subject)"

fun digits :: "nat \<Rightarrow> string" where
  "digits n =
     (if n < 10 then [''0123456789'' ! n]
      else digits (n div 10) @ [''0123456789'' ! (n mod 10)])"

declare digits.simps [simp del]

definition toString :: "int \<Rightarrow> string" where
  \<comment> \<open>the decimal text of an integral number, as \<open>ms + 'ms'\<close> produces it\<close>
  "toString i = (if i < 0 then ''-'' @ digits (nat (- i)) else digits (nat i))"

section \<open>The process environment\<close>

text \<open>
  What the plugin reads from the process and from Node's \<open>path\<close> module. The path
  functions are library code and are taken as parameters.
\<close>

record env =
  argv :: "string list"
  cwd :: string
  sep :: string
  path_resolve :: "string list \<Rightarrow> string"
  path_extname :: "string \<Rightarrow> string"
  path_dirname :: "string \<Rightarrow> string"
  path_basename :: "string \<Rightarrow> string \<Rightarrow> string"

definition shortFileName :: "env \<Rightarrow> string \<Rightarrow> string" where
  "shortFileName e fileName = stripFromBeginning fileName (cwd e @ sep e)"

definition shortFileName_exorcist :: "env \<Rightarrow> string \<Rightarrow> string" where
  \<comment> \<open>the second variant of the plugin writes the separator as the literal \<open>'/'\<close>\<close>
  "shortFileName_exorcist e fileName = stripFromBeginning fileName (cwd e @ ''/'')"

section \<open>Host configuration\<close>

text \<open>
  \<open>brunchConfig.plugins.anotherBrowserify\<close> and the host-level fields the plugin reads.
  An optional field is \<open>None\<close> when the host leaves it out. The two host flags are
  kept as their truthiness. \<open>gulpPipeCreateFns\<close> stays an untyped value, because the
  code checks its shape itself.
\<close>

record config =
  entry :: string
  outFile :: string
  mapFile :: string
  uglifyOptions :: "obj option"
  browserifyOptions :: "obj option"
  transforms :: "jsval list option"
  gulpPipeCreateFns :: jsval
  touchOnCompile :: "string option"

record brunchConfig =
  sourceMaps :: bool
  optimize :: bool
  paths_public :: string
  plugins_anotherBrowserify :: config

section \<open>Collaborators and effects\<close>

record renameOptions =
  dirname :: string
  basename :: string
  extname :: string

datatype stage =
    Source string
  | Buffer
  | SourcemapsInit
  | Created nat
  | Uglify obj
  | Rename renameOptions
  | SourcemapsWrite string
  | GulpDest string
  | Exorcist string
  | CreateWriteStream string

datatype styled = Plain string | Cyan styled | Underline styled | Red styled

datatype transform = UserTransform jsval | Uglifyify_global

datatype bundler = BrowserifyInst obj | WatchifyInst bundler

text \<open>Every call the plugin makes to a collaborator, in program order.\<close>

datatype effect =
    Browserify obj
  | Watchify
  | BundlerTransform transform
  | BrowserifyAdd string
  | MkdirpSync string
  | WatchifyOnUpdate
  | ConsoleLog "styled list"
  | ConsoleError "styled list"
  | BundlerBundle
  | BundleOnError
  | Pipe stage
  | OnFinish
  | TouchSync string
  | BundlerClose

datatype error = NotAnArray | NotAFunction nat | TypeError

section \<open>Construction: the parts both variants share\<close>

fun watching :: "string list \<Rightarrow> bool" where
  \<comment> \<open>the loop over \<open>process.argv\<close>, leaving at the first \<open>'watch'\<close>\<close>
  "watching [] = False"
| "watching (a # as) = (if a = ''watch'' then True else watching as)"

definition bOptions :: "brunchConfig \<Rightarrow> bool \<Rightarrow> obj" where
  \<comment> \<open>the local \<open>bOptions\<close>, as it is when \<open>browserify(bOptions)\<close> is called\<close>
  "bOptions bc w =
     (let b0 = [(''extensions'', JArr [JStr ''.js'', JStr ''.es6''])];
          src = (case browserifyOptions (plugins_anotherBrowserify bc) of
                   None \<Rightarrow> [] | Some ob \<Rightarrow> ob);
          b1 = fold (\<lambda>key b. js_set key (js_get src key) b) (js_keys src) b0;
          b2 = (if sourceMaps bc then js_set ''debug'' (JBool True) b1 else b1)
      in if w then js_set ''packageCache'' (JObj []) (js_set ''cache'' (JObj []) b2)
         else b2)"

definition ms_between :: "int \<times> int \<Rightarrow> int \<times> int \<Rightarrow> int" where
  \<comment> \<open>\<open>Math.floor(seconds * 1000 + nanoseconds / 1000000)\<close> on two \<open>process.hrtime()\<close>
      readings (pairs of integers), in exact arithmetic\<close>
  "ms_between beginTime endTime =
     (let seconds = fst endTime - fst beginTime;
          nanoseconds = snd endTime - snd beginTime
      in seconds * 1000 + nanoseconds div 1000000)"

definition truthy_string :: "string option \<Rightarrow> bool" where
  "truthy_string s = (case s of None \<Rightarrow> False | Some t \<Rightarrow> t \<noteq> [])"

section \<open>The variant that assembles a gulp pipeline\<close>

record plugin =
  this_brunchConfig :: brunchConfig
  this_config :: config
  this_entryFile :: string
  this_gulpDestDir :: string
  this_outFile :: string
  this_uglifyOptions :: obj
  this_gulpRenameOptions :: renameOptions
  this_watching :: bool
  this_bundler :: bundler
  this_browserify :: bundler
  this_watchify :: "bundler option"

fun pipeCustom :: "nat \<Rightarrow> jsval list \<Rightarrow> effect list \<times> error option" where
  \<comment> \<open>the \<open>forEach\<close> over \<open>gulpPipeCreateFns\<close>, from index \<open>i\<close>\<close>
  "pipeCustom i [] = ([], None)"
| "pipeCustom i (JFn n # fs) =
     (case pipeCustom (Suc i) fs of (es, r) \<Rightarrow> (Pipe (Created n) # es, r))"
| "pipeCustom i (v # fs) = ([], Some (NotAFunction i))"

definition multipleFilesChanged :: "string list option \<Rightarrow> bool" where
  "multipleFilesChanged changedFiles =
     (case changedFiles of None \<Rightarrow> False | Some fs \<Rightarrow> length fs > 1)"

definition customPipes :: "jsval \<Rightarrow> effect list \<times> error option" where
  \<comment> \<open>the block guarded by \<open>if (this.config_.gulpPipeCreateFns)\<close>\<close>
  "customPipes fns =
     (if truthy fns
      then (if \<not> instanceof_Array fns then ([], Some NotAnArray)
            else (case fns of JArr xs \<Rightarrow> pipeCustom 0 xs | _ \<Rightarrow> ([], Some NotAnArray)))
      else ([], None))"

definition bundle_gulp :: "plugin \<Rightarrow> string list option \<Rightarrow> effect list \<times> error option" where
  \<comment> \<open>the synchronous part of \<open>bundle(changedFiles)\<close>: the calls made, and the error thrown if any\<close>
  "bundle_gulp this changedFiles =
     (let sm = sourceMaps (this_brunchConfig this);
          fns = gulpPipeCreateFns (this_config this);
          start = (if multipleFilesChanged changedFiles
                   then [ConsoleLog [Plain ''\<newline>Start'', Cyan (Plain ''bundling'')] ] else []);
          flow0 = [BundlerBundle, BundleOnError,
                   Pipe (Source (this_entryFile this)), Pipe Buffer]
                  @ (if sm then [Pipe SourcemapsInit] else []);
          custom = customPipes fns
      in case snd custom of
           Some err \<Rightarrow> (start @ flow0 @ fst custom, Some err)
         | None \<Rightarrow>
             (start @ flow0 @ fst custom
              @ (if optimize (this_brunchConfig this)
                 then [Pipe (Uglify (this_uglifyOptions this))] else [])
              @ [Pipe (Rename (this_gulpRenameOptions this))]
              @ (if sm then [Pipe (SourcemapsWrite ''.'')] else [])
              @ [Pipe (GulpDest (this_gulpDestDir this)), OnFinish],
              None))"

definition onError :: "string \<Rightarrow> effect list" where
  \<comment> \<open>the listener for the bundler stream's \<open>'error'\<close>; the argument is \<open>error.toString()\<close>\<close>
  "onError msg = [ConsoleError [Red (Red (Plain msg))] ]"

definition onFinish_gulp ::
  "env \<Rightarrow> plugin \<Rightarrow> int \<times> int \<Rightarrow> string list option \<Rightarrow> int \<times> int
     \<Rightarrow> effect list \<times> error option" where
  \<comment> \<open>the listener for \<open>'finish'\<close>; \<open>changedFiles[0]\<close> of an empty list is \<open>undefined\<close>,
      and \<open>undefined.indexOf\<close> throws (the query is not empty, as \<open>path.sep\<close> is not)\<close>
  "onFinish_gulp e this beginTime changedFiles endTime =
     (let ms = ms_between beginTime endTime;
          logs =
            (case changedFiles of
               None \<Rightarrow> ([], None)
             | Some fs \<Rightarrow>
                 if multipleFilesChanged changedFiles
                 then (map (\<lambda>changedFile.
                              ConsoleLog [Plain (CHR 0x09 # ''Compiled:''),
                                          Underline (Plain (shortFileName e changedFile))]) fs
                       @ [ConsoleLog [Plain ''Finished'', Cyan (Plain ''bundle''), Plain ''in'',
                                      Plain (toString ms @ ''ms\<newline>'')] ],
                       None)
                 else (case fs of
                         [] \<Rightarrow> ([], Some TypeError)
                       | f # rest \<Rightarrow>
                           ([ConsoleLog [Plain (CHR 0x09 # ''Compiled:''),
                                         Underline (Plain (shortFileName e f)), Plain ''in'',
                                         Plain (toString ms @ ''ms'')] ],
                            None)))
      in case snd logs of
           Some err \<Rightarrow> (fst logs, Some err)
         | None \<Rightarrow>
             (fst logs
              @ (if truthy_string (touchOnCompile (this_config this))
                 then [TouchSync (path_resolve e [the (touchOnCompile (this_config this))]),
                       ConsoleLog [Plain (CHR 0x09 # ''Triggering browser reload'')] ]
                 else []),
              None))"

definition AnotherBrowserifyBrunchPlugin ::
  "env \<Rightarrow> brunchConfig \<Rightarrow> plugin \<times> effect list \<times> error option" where
  \<comment> \<open>the constructor: the instance, the calls made (those of the first \<open>bundle()\<close> last),
      and the error thrown if any. Setting \<open>compress\<close> writes to the host's own
      \<open>uglifyOptions\<close> object when there is one, so \<open>this_config\<close> shows it too.\<close>
  "AnotherBrowserifyBrunchPlugin e bc =
     (let cfg = plugins_anotherBrowserify bc;
          uo0 = (case uglifyOptions cfg of None \<Rightarrow> [] | Some u \<Rightarrow> u);
          uo = (if sourceMaps bc \<and> \<not> js_in ''compress'' uo0
                then js_set ''compress'' (JBool False) uo0 else uo0);
          cfg' = cfg\<lparr>uglifyOptions := map_option (\<lambda>u. uo) (uglifyOptions cfg)\<rparr>;
          extension = path_extname e (outFile cfg);
          w = watching (argv e);
          bo = bOptions bc w;
          b = BrowserifyInst bo;
          this = \<lparr>this_brunchConfig = bc\<lparr>plugins_anotherBrowserify := cfg'\<rparr>,
                  this_config = cfg',
                  this_entryFile = path_resolve e [entry cfg],
                  this_gulpDestDir = path_resolve e [paths_public bc],
                  this_outFile = path_resolve e [paths_public bc, outFile cfg],
                  this_uglifyOptions = uo,
                  this_gulpRenameOptions =
                    \<lparr>dirname = path_dirname e (outFile cfg),
                     basename = path_basename e (outFile cfg) extension,
                     extname = extension\<rparr>,
                  this_watching = w,
                  this_bundler = (if w then WatchifyInst b else b),
                  this_browserify = b,
                  this_watchify = (if w then Some (WatchifyInst b) else None)\<rparr>;
          calls = [Browserify bo] @ (if w then [Watchify] else [])
                  @ (case transforms cfg of
                       None \<Rightarrow> []
                     | Some trs \<Rightarrow> map (\<lambda>tr. BundlerTransform (UserTransform tr)) trs)
                  @ [BrowserifyAdd (entry cfg),
                     MkdirpSync (path_dirname e (this_outFile this))]
                  @ (if this_watchify this \<noteq> None then [WatchifyOnUpdate] else []);
          first = bundle_gulp this None
      in (this, calls @ fst first, snd first))"

definition teardown :: "plugin \<Rightarrow> effect list" where
  "teardown this = (if this_watching this then [BundlerClose] else [])"

text \<open>
  One call of \<open>bundle\<close> together with the way its streams end: the destination emits
  \<open>'finish'\<close> at the given clock reading, or the bundler stream emits \<open>'error'\<close> and
  nothing reaches the destination.
\<close>

datatype ending = Finished "int \<times> int" | Errored string

definition pipeline_run ::
  "env \<Rightarrow> plugin \<Rightarrow> int \<times> int \<Rightarrow> string list option \<Rightarrow> ending
     \<Rightarrow> effect list \<times> error option" where
  "pipeline_run e this beginTime changedFiles ending =
     (case bundle_gulp this changedFiles of
        (calls, Some err) \<Rightarrow> (calls, Some err)
      | (calls, None) \<Rightarrow>
          (case ending of
             Finished endTime \<Rightarrow>
               (case onFinish_gulp e this beginTime changedFiles endTime of
                  (after, r) \<Rightarrow> (calls @ after, r))
           | Errored msg \<Rightarrow> (calls @ onError msg, None)))"

section \<open>The variant that writes the bundle stream to the output file\<close>

record plugin_exorcist =
  thisx_brunchConfig :: brunchConfig
  thisx_config :: config
  thisx_outFile :: string
  thisx_outMapFile :: string
  thisx_watching :: bool
  thisx_bundler :: bundler
  thisx_browserify :: bundler
  thisx_watchify :: "bundler option"

definition bundle_exorcist ::
  "plugin_exorcist \<Rightarrow> string list option \<Rightarrow> effect list \<times> error option" where
  "bundle_exorcist this changedFiles =
     (let start = (if multipleFilesChanged changedFiles
                   then [ConsoleLog [Plain ''\<newline>Start'', Cyan (Plain ''bundling'')] ] else [])
      in (start @ [BundlerBundle, BundleOnError]
          @ (if sourceMaps (thisx_brunchConfig this)
             then [Pipe (Exorcist (thisx_outMapFile this))] else [])
          @ [Pipe (CreateWriteStream (thisx_outFile this)), OnFinish],
          None))"

definition onFinish_exorcist ::
  "env \<Rightarrow> plugin_exorcist \<Rightarrow> int \<times> int \<Rightarrow> string list option \<Rightarrow> int \<times> int
     \<Rightarrow> effect list \<times> error option" where
  \<comment> \<open>here the sentinel is touched first, and the single-file line begins with a newline\<close>
  "onFinish_exorcist e this beginTime changedFiles endTime =
     (let sentinel = (if truthy_string (touchOnCompile (thisx_config this))
                      then [TouchSync (path_resolve e [the (touchOnCompile (thisx_config this))])]
                      else []);
          ms = ms_between beginTime endTime
      in case changedFiles of
           None \<Rightarrow> (sentinel, None)
         | Some fs \<Rightarrow>
             if multipleFilesChanged changedFiles
             then (sentinel
                   @ map (\<lambda>changedFile.
                            ConsoleLog [Plain (CHR 0x09 # ''Compiled:''),
                                        Underline (Plain (shortFileName_exorcist e changedFile))]) fs
                   @ [ConsoleLog [Plain ''Finished'', Cyan (Plain ''bundle''), Plain ''in'',
                                  Plain (toString ms @ ''ms\<newline>'')] ],
                   None)
             else (case fs of
                     [] \<Rightarrow> (sentinel, Some TypeError)
                   | f # rest \<Rightarrow>
                       (sentinel
                        @ [ConsoleLog [Plain ''\<newline>Compiled:'',
                                       Underline (Plain (shortFileName_exorcist e f)), Plain ''in'',
                                       Plain (toString ms @ ''ms'')] ],
                        None)))"

definition AnotherBrowserifyBrunchPlugin_exorcist ::
  "env \<Rightarrow> brunchConfig \<Rightarrow> plugin_exorcist \<times> effect list \<times> error option" where
  \<comment> \<open>here the minifier is a transform of the bundler, added after the host's transforms\<close>
  "AnotherBrowserifyBrunchPlugin_exorcist e bc =
     (let cfg = plugins_anotherBrowserify bc;
          w = watching (argv e);
          bo = bOptions bc w;
          b = BrowserifyInst bo;
          this = \<lparr>thisx_brunchConfig = bc,
                  thisx_config = cfg,
                  thisx_outFile = path_resolve e [paths_public bc, outFile cfg],
                  thisx_outMapFile = path_resolve e [paths_public bc, mapFile cfg],
                  thisx_watching = w,
                  thisx_bundler = (if w then WatchifyInst b else b),
                  thisx_browserify = b,
                  thisx_watchify = (if w then Some (WatchifyInst b) else None)\<rparr>;
          calls = [Browserify bo] @ (if w then [Watchify] else [])
                  @ (case transforms cfg of
                       None \<Rightarrow> []
                     | Some trs \<Rightarrow> map (\<lambda>tr. BundlerTransform (UserTransform tr)) trs)
                  @ (if optimize bc then [BundlerTransform Uglifyify_global] else [])
                  @ [BrowserifyAdd (entry cfg),
                     MkdirpSync (path_dirname e (thisx_outFile this))]
                  @ (if thisx_watchify this \<noteq> None then [WatchifyOnUpdate] else []);
          first = bundle_exorcist this None
      in (this, calls @ fst first, snd first))"

definition teardown_exorcist :: "plugin_exorcist \<Rightarrow> effect list" where
  "teardown_exorcist this = (if thisx_watching this then [BundlerClose] else [])"

definition pipeline_run_exorcist ::
  "env \<Rightarrow> plugin_exorcist \<Rightarrow> int \<times> int \<Rightarrow> string list option \<Rightarrow> ending
     \<Rightarrow> effect list \<times> error option" where
  "pipeline_run_exorcist e this beginTime changedFiles ending =
     (case bundle_exorcist this changedFiles of
        (calls, Some err) \<Rightarrow> (calls, Some err)
      | (calls, None) \<Rightarrow>
          (case ending of
             Finished endTime \<Rightarrow>
               (case onFinish_exorcist e this beginTime changedFiles endTime of
                  (after, r) \<Rightarrow> (calls @ after, r))
           | Errored msg \<Rightarrow> (calls @ onError msg, None)))"

section \<open>A sample environment\<close>

text \<open>
  A POSIX process started in \<open>/home/app\<close>, used to run the model on concrete inputs.
  Its path functions cover relative paths without \<open>.\<close> and \<open>..\<close> segments.
\<close>

definition last_segment :: "string \<Rightarrow> string" where
  "last_segment p = rev (takeWhile (\<lambda>c. c \<noteq> CHR ''/'') (rev p))"

definition posix_extname :: "string \<Rightarrow> string" where
  "posix_extname p =
     (let b = last_segment p; r = takeWhile (\<lambda>c. c \<noteq> CHR ''.'') (rev b)
      in if length r = length b \<or> Suc (length r) = length b then [] else CHR ''.'' # rev r)"

definition posix_dirname :: "string \<Rightarrow> string" where
  "posix_dirname p =
     (let d = rev (drop 1 (dropWhile (\<lambda>c. c \<noteq> CHR ''/'') (rev p)))
      in if d = [] then ''.'' else d)"

definition posix_basename :: "string \<Rightarrow> string \<Rightarrow> string" where
  "posix_basename p ext =
     (let b = last_segment p
      in if ext \<noteq> [] \<and> suffix ext b then take (length b - length ext) b else b)"

definition posix_resolve :: "string \<Rightarrow> string list \<Rightarrow> string" where
  "posix_resolve wd ps =
     fold (\<lambda>p acc. if take 1 p = ''/'' then p else acc @ ''/'' @ p) ps wd"

definition sample_env :: "string list \<Rightarrow> env" where
  "sample_env args =
     \<lparr>argv = args, cwd = ''/home/app'', sep = ''/'',
      path_resolve = posix_resolve ''/home/app'',
      path_extname = posix_extname, path_dirname = posix_dirname,
      path_basename = posix_basename\<rparr>"

section \<open>Reading a trace\<close>

definition stages_of :: "effect list \<Rightarrow> stage list" where
  \<comment> \<open>the stages attached with \<open>pipe\<close>, in order\<close>
  "stages_of es = concat (map (\<lambda>x. case x of Pipe st \<Rightarrow> [st] | _ \<Rightarrow> []) es)"

definition transforms_of :: "effect list \<Rightarrow> transform list" where
  \<comment> \<open>the transforms registered on the bundler, in order\<close>
  "transforms_of es = concat (map (\<lambda>x. case x of BundlerTransform t \<Rightarrow> [t] | _ \<Rightarrow> []) es)"

definition console_lines :: "effect list \<Rightarrow> styled list list" where
  \<comment> \<open>the argument lists of the \<open>console.log\<close> calls, in order\<close>
  "console_lines es = concat (map (\<lambda>x. case x of ConsoleLog l \<Rightarrow> [l] | _ \<Rightarrow> []) es)"

definition touched :: "effect list \<Rightarrow> string list" where
  \<comment> \<open>the paths given to \<open>touch.sync\<close>, in order\<close>
  "touched es = concat (map (\<lambda>x. case x of TouchSync p \<Rightarrow> [p] | _ \<Rightarrow> []) es)"

definition supplies :: "jsval \<Rightarrow> nat list \<Rightarrow> bool" where
  \<comment> \<open>\<open>gulpPipeCreateFns\<close> has the shape the plugin accepts: left out (or falsy), or an
      array of the factories \<open>ns\<close>\<close>
  "supplies v ns = (if truthy v then v = JArr (map JFn ns) else ns = [])"

definition sample_config :: config where
  "sample_config =
     \<lparr>entry = ''app/main.js'', outFile = ''js/app.min.js'', mapFile = ''js/app.js.map'',
      uglifyOptions = None, browserifyOptions = None, transforms = None,
      gulpPipeCreateFns = JUndefined, touchOnCompile = None\<rparr>"

definition sample_brunchConfig :: "bool \<Rightarrow> bool \<Rightarrow> config \<Rightarrow> brunchConfig" where
  "sample_brunchConfig sm opt cfg =
     \<lparr>sourceMaps = sm, optimize = opt, paths_public = ''public'',
      plugins_anotherBrowserify = cfg\<rparr>"

section \<open>What the stages do to the artifact\<close>

type_synonym bytes = string

datatype fname = Unnamed | Named string | Parts renameOptions | SiblingMap string fname

record artifact =
  art_name :: fname
  art_contents :: bytes

datatype target = InDirectory string fname | AtPath string

record flowing =
  in_flight :: "artifact list"
  written :: "(target \<times> bytes) list"

definition run_stage :: "(stage \<Rightarrow> flowing \<Rightarrow> flowing) \<Rightarrow> stage \<Rightarrow> flowing \<Rightarrow> flowing" where
  \<comment> \<open>Modelled from the spec: the stages are library code. Naming the stream, buffering,
      renaming and writing leave the contents alone (spec 4.3, steps 1, 5 and 7); renaming
      sets directory, base name and extension; a destination writes what reaches it. What
      source-map handling, custom stages and the minifier do is the parameter \<open>other\<close>.\<close>
  "run_stage other st s =
     (case st of
        Source p \<Rightarrow> s\<lparr>in_flight := map (\<lambda>a. a\<lparr>art_name := Named p\<rparr>) (in_flight s)\<rparr>
      | Buffer \<Rightarrow> s
      | Rename r \<Rightarrow> s\<lparr>in_flight := map (\<lambda>a. a\<lparr>art_name := Parts r\<rparr>) (in_flight s)\<rparr>
      | GulpDest d \<Rightarrow>
          s\<lparr>written := written s
                @ map (\<lambda>a. (InDirectory d (art_name a), art_contents a)) (in_flight s)\<rparr>
      | CreateWriteStream f \<Rightarrow>
          s\<lparr>written := written s @ map (\<lambda>a. (AtPath f, art_contents a)) (in_flight s)\<rparr>
      | _ \<Rightarrow> other st s)"

definition run_pipeline :: "(stage \<Rightarrow> flowing \<Rightarrow> flowing) \<Rightarrow> stage list \<Rightarrow> bytes \<Rightarrow> flowing" where
  \<comment> \<open>the bundler's serialized output \<open>raw\<close> sent through the stages\<close>
  "run_pipeline other stages raw =
     fold (run_stage other) stages
       \<lparr>in_flight = [\<lparr>art_name = Unnamed, art_contents = raw\<rparr>], written = []\<rparr>"

definition map_stage ::
  "(artifact \<Rightarrow> bytes) \<Rightarrow> (artifact \<Rightarrow> bytes) \<Rightarrow> (stage \<Rightarrow> flowing \<Rightarrow> flowing)
     \<Rightarrow> stage \<Rightarrow> flowing \<Rightarrow> flowing" where
  \<comment> \<open>Modelled from the spec: the two stages that emit the accumulated source map are
      library code (spec 4.3, step 6). The source-map writer adds, for each artifact in
      flight, a map artifact as its sibling in the given directory; the other variant's
      filter writes the map to the configured map file. \<open>srcmap\<close> is the map of an
      artifact and \<open>linked\<close> its contents once they refer to the map; source-map
      init, custom stages and the minifier stay the parameter \<open>other\<close>.\<close>
  "map_stage srcmap linked other st s =
     (case st of
        SourcemapsWrite d \<Rightarrow>
          s\<lparr>in_flight :=
              concat (map (\<lambda>a. [a\<lparr>art_contents := linked a\<rparr>,
                                 \<lparr>art_name = SiblingMap d (art_name a),
                                  art_contents = srcmap a\<rparr>]) (in_flight s))\<rparr>
      | Exorcist f \<Rightarrow>
          s\<lparr>in_flight := map (\<lambda>a. a\<lparr>art_contents := linked a\<rparr>) (in_flight s),
            written := written s @ map (\<lambda>a. (AtPath f, srcmap a)) (in_flight s)\<rparr>
      | _ \<Rightarrow> other st s)"

section \<open>The sentinel file\<close>

definition touch_sync :: "nat \<Rightarrow> string \<Rightarrow> (string \<rightharpoonup> nat) \<Rightarrow> (string \<rightharpoonup> nat)" where
  \<comment> \<open>Modelled from the spec: \<open>touch.sync\<close> is library code; it updates the modification
      time, creating the file if absent (spec 4.4). \<open>mtime\<close> maps each existing file to its
      modification time and \<open>now\<close> is the clock's reading at the call.\<close>
  "touch_sync now p mtime = mtime(p \<mapsto> now)"

definition mtimes_after :: "nat \<Rightarrow> effect list \<Rightarrow> (string \<rightharpoonup> nat) \<Rightarrow> (string \<rightharpoonup> nat)" where
  \<comment> \<open>the modification times once the \<open>touch.sync\<close> calls of a trace have been made\<close>
  "mtimes_after now es mtime = fold (touch_sync now) (touched es) mtime"

section \<open>Friendly file names\<close>

lemma indexOf_ge: "- 1 \<le> indexOf s q"
  by (induction s) (auto simp: Let_def)

lemma indexOf_zero_iff: "indexOf s q = 0 \<longleftrightarrow> prefix q s"
proof (cases s)
  case Nil
  then show ?thesis by auto
next
  case (Cons c cs)
  have "- 1 \<le> indexOf cs q" by (rule indexOf_ge)
  with Cons show ?thesis by (auto simp: Let_def)
qed

lemma stripFromBeginning_prefix:
  "stripFromBeginning subject query =
     (if prefix query subject then drop (length query) subject else subject)"
  by (auto simp: stripFromBeginning_def substr_def indexOf_zero_iff)

text \<open>
  C10. The name logged for a changed file is the file name without the prefix made of the
  working directory and the path separator when the file name begins with that prefix,
  and the file name itself otherwise (the second variant takes \<open>'/'\<close> as the separator);
  stripping an empty query changes nothing.
\<close>

theorem shortFileName_strips_cwd_prefix:
  "(prefix (cwd e @ sep e) fileName \<longrightarrow>
      (cwd e @ sep e) @ shortFileName e fileName = fileName
      \<and> shortFileName e fileName = drop (length (cwd e) + length (sep e)) fileName)
   \<and> (\<not> prefix (cwd e @ sep e) fileName \<longrightarrow> shortFileName e fileName = fileName)
   \<and> (prefix (cwd e @ ''/'') fileName \<longrightarrow>
      (cwd e @ ''/'') @ shortFileName_exorcist e fileName = fileName)
   \<and> (\<not> prefix (cwd e @ ''/'') fileName \<longrightarrow> shortFileName_exorcist e fileName = fileName)
   \<and> stripFromBeginning subject [] = subject"
  by (auto simp: shortFileName_def shortFileName_exorcist_def stripFromBeginning_prefix
      prefix_def)

theorem shortFileName_strips_cwd_prefix_witness:
  "prefix (cwd (sample_env []) @ sep (sample_env [])) ''/home/app/src/a.js''
   \<and> shortFileName (sample_env []) ''/home/app/src/a.js'' = ''src/a.js''
   \<and> \<not> prefix (cwd (sample_env []) @ sep (sample_env [])) ''/tmp/b.js''
   \<and> shortFileName (sample_env []) ''/tmp/b.js'' = ''/tmp/b.js''
   \<and> shortFileName_exorcist (sample_env []) ''/home/app/src/a.js'' = ''src/a.js''"
  using shortFileName_strips_cwd_prefix [of "sample_env []" "''/home/app/src/a.js''" "''a.js''"]
    shortFileName_strips_cwd_prefix [of "sample_env []" "''/tmp/b.js''" "''a.js''"]
  by (simp add: sample_env_def)


section \<open>The pipeline of the gulp variant\<close>

lemma pipeCustom_factories:
  "pipeCustom i (map JFn ns) = (map (\<lambda>n. Pipe (Created n)) ns, None)"
  by (induction ns arbitrary: i) auto

lemma bundle_gulp_supplied:
  assumes "supplies (gulpPipeCreateFns (this_config this)) ns"
  shows "bundle_gulp this changedFiles =
     ((if multipleFilesChanged changedFiles
       then [ConsoleLog [Plain ''\<newline>Start'', Cyan (Plain ''bundling'')] ] else [])
      @ [BundlerBundle, BundleOnError, Pipe (Source (this_entryFile this)), Pipe Buffer]
      @ (if sourceMaps (this_brunchConfig this) then [Pipe SourcemapsInit] else [])
      @ map (\<lambda>n. Pipe (Created n)) ns
      @ (if optimize (this_brunchConfig this)
         then [Pipe (Uglify (this_uglifyOptions this))] else [])
      @ [Pipe (Rename (this_gulpRenameOptions this))]
      @ (if sourceMaps (this_brunchConfig this) then [Pipe (SourcemapsWrite ''.'')] else [])
      @ [Pipe (GulpDest (this_gulpDestDir this)), OnFinish],
      None)"
proof (cases "truthy (gulpPipeCreateFns (this_config this))")
  case True
  with assms have "gulpPipeCreateFns (this_config this) = JArr (map JFn ns)"
    by (simp add: supplies_def)
  then show ?thesis
    by (simp add: bundle_gulp_def customPipes_def Let_def pipeCustom_factories)
next
  case False
  with assms have "ns = []" by (simp add: supplies_def)
  with False show ?thesis
    by (simp add: bundle_gulp_def customPipes_def Let_def)
qed

lemma pipeCustom_returns:
  "snd (pipeCustom i xs) = None \<Longrightarrow> \<exists>ns. xs = map JFn ns"
proof (induction i xs rule: pipeCustom.induct)
  case (1 i)
  then show ?case by simp
next
  case (2 i n fs)
  then have "snd (pipeCustom (Suc i) fs) = None" by (simp split: prod.splits)
  with 2 obtain ns where "fs = map JFn ns" by blast
  then have "JFn n # fs = map JFn (n # ns)" by simp
  then show ?case by (rule exI)
qed simp_all

text \<open>
  The shape condition is exactly the condition under which \<open>bundle()\<close> returns instead
  of throwing a configuration error.
\<close>

lemma bundle_gulp_returns_iff:
  "snd (bundle_gulp this changedFiles) = None
     \<longleftrightarrow> (\<exists>ns. supplies (gulpPipeCreateFns (this_config this)) ns)"
proof
  assume r: "snd (bundle_gulp this changedFiles) = None"
  then have c: "snd (customPipes (gulpPipeCreateFns (this_config this))) = None"
    by (simp add: bundle_gulp_def Let_def split: option.splits)
  show "\<exists>ns. supplies (gulpPipeCreateFns (this_config this)) ns"
  proof (cases "truthy (gulpPipeCreateFns (this_config this))")
    case False
    then have "supplies (gulpPipeCreateFns (this_config this)) []"
      by (simp add: supplies_def)
    then show ?thesis by blast
  next
    case True
    with c obtain xs where x: "gulpPipeCreateFns (this_config this) = JArr xs"
      and "snd (pipeCustom 0 xs) = None"
      by (cases "gulpPipeCreateFns (this_config this)") (simp_all add: customPipes_def)
    then obtain ns where "xs = map JFn ns"
      using pipeCustom_returns by blast
    with x have "supplies (gulpPipeCreateFns (this_config this)) ns"
      by (simp add: supplies_def)
    then show ?thesis by blast
  qed
next
  assume "\<exists>ns. supplies (gulpPipeCreateFns (this_config this)) ns"
  then obtain ns where "supplies (gulpPipeCreateFns (this_config this)) ns" by blast
  from bundle_gulp_supplied [OF this, of changedFiles]
  show "snd (bundle_gulp this changedFiles) = None" by simp
qed

lemma bundle_gulp_not_array:
  assumes "truthy (gulpPipeCreateFns (this_config this))"
    and "\<not> instanceof_Array (gulpPipeCreateFns (this_config this))"
  shows "bundle_gulp this changedFiles =
     ((if multipleFilesChanged changedFiles
       then [ConsoleLog [Plain ''\<newline>Start'', Cyan (Plain ''bundling'')] ] else [])
      @ [BundlerBundle, BundleOnError, Pipe (Source (this_entryFile this)), Pipe Buffer]
      @ (if sourceMaps (this_brunchConfig this) then [Pipe SourcemapsInit] else []),
      Some NotAnArray)"
  using assms
  by (simp add: bundle_gulp_def customPipes_def Let_def)

lemma bundle_gulp_falsy:
  assumes "\<not> truthy (gulpPipeCreateFns (this_config this))"
  shows "snd (bundle_gulp this changedFiles) = None"
  using assms by (simp add: bundle_gulp_def customPipes_def Let_def)

text \<open>What the constructor stores, field by field.\<close>

lemma constructed_flags:
  "sourceMaps (this_brunchConfig (fst (AnotherBrowserifyBrunchPlugin e bc))) = sourceMaps bc"
  "optimize (this_brunchConfig (fst (AnotherBrowserifyBrunchPlugin e bc))) = optimize bc"
  by (simp_all add: AnotherBrowserifyBrunchPlugin_def Let_def)

lemma constructed_config:
  "gulpPipeCreateFns (this_config (fst (AnotherBrowserifyBrunchPlugin e bc)))
     = gulpPipeCreateFns (plugins_anotherBrowserify bc)"
  "touchOnCompile (this_config (fst (AnotherBrowserifyBrunchPlugin e bc)))
     = touchOnCompile (plugins_anotherBrowserify bc)"
  by (simp_all add: AnotherBrowserifyBrunchPlugin_def Let_def)

lemma constructed_paths:
  "this_entryFile (fst (AnotherBrowserifyBrunchPlugin e bc))
     = path_resolve e [entry (plugins_anotherBrowserify bc)]"
  "this_gulpDestDir (fst (AnotherBrowserifyBrunchPlugin e bc))
     = path_resolve e [paths_public bc]"
  "this_gulpRenameOptions (fst (AnotherBrowserifyBrunchPlugin e bc))
     = \<lparr>dirname = path_dirname e (outFile (plugins_anotherBrowserify bc)),
        basename = path_basename e (outFile (plugins_anotherBrowserify bc))
                     (path_extname e (outFile (plugins_anotherBrowserify bc))),
        extname = path_extname e (outFile (plugins_anotherBrowserify bc))\<rparr>"
  by (simp_all add: AnotherBrowserifyBrunchPlugin_def Let_def)

lemma constructed_first_bundle:
  "snd (snd (AnotherBrowserifyBrunchPlugin e bc))
     = snd (bundle_gulp (fst (AnotherBrowserifyBrunchPlugin e bc)) None)"
  by (simp add: AnotherBrowserifyBrunchPlugin_def Let_def)

text \<open>
  C1, as stated: a non-array \<open>gulpPipeCreateFns\<close> makes \<open>bundle()\<close> throw before the
  bundler's \<open>bundle()\<close> is invoked and before any stage is attached. The code checks the
  value where it uses it: with the string \<open>'uglify'\<close> the bundler has been started, its
  error listener registered and two stages attached when the error is thrown; and the
  non-array value \<open>0\<close> is falsy, so it is taken as absent and nothing is thrown.
\<close>

theorem non_array_fns_checked_late_counterexample:
  "\<not> instanceof_Array (JStr ''uglify'')
   \<and> bundle_gulp
        (fst (AnotherBrowserifyBrunchPlugin (sample_env [])
                (sample_brunchConfig False False
                   (sample_config\<lparr>gulpPipeCreateFns := JStr ''uglify''\<rparr>)))) None
       = ([BundlerBundle, BundleOnError, Pipe (Source ''/home/app/app/main.js''), Pipe Buffer],
          Some NotAnArray)
   \<and> \<not> instanceof_Array (JNum 0)
   \<and> snd (bundle_gulp
        (fst (AnotherBrowserifyBrunchPlugin (sample_env [])
                (sample_brunchConfig False False
                   (sample_config\<lparr>gulpPipeCreateFns := JNum 0\<rparr>)))) None)
       = None"
  by (simp add: bundle_gulp_def customPipes_def AnotherBrowserifyBrunchPlugin_def Let_def sample_env_def
      sample_brunchConfig_def sample_config_def posix_resolve_def multipleFilesChanged_def)

text \<open>
  C1, amended: when \<open>gulpPipeCreateFns\<close> is a truthy value that is not an array,
  \<open>bundle()\<close> throws the configuration error synchronously (so the constructor throws it
  too), after the bundler's \<open>bundle()\<close> has been invoked, its error listener registered and
  the source, buffer and (with source maps) source-map-init stages attached, and before any
  custom, minifier, rename, source-map-write or destination stage is attached or the finish
  listener registered. A falsy value raises no error.
\<close>

theorem non_array_fns_throws_after_bundler_started:
  assumes "this = fst (AnotherBrowserifyBrunchPlugin e bc)"
    and "fns = gulpPipeCreateFns (plugins_anotherBrowserify bc)"
  shows "(truthy fns \<and> \<not> instanceof_Array fns \<longrightarrow>
            bundle_gulp this changedFiles =
              ((if multipleFilesChanged changedFiles
                then [ConsoleLog [Plain ''\<newline>Start'', Cyan (Plain ''bundling'')] ] else [])
               @ [BundlerBundle, BundleOnError,
                  Pipe (Source (path_resolve e [entry (plugins_anotherBrowserify bc)])),
                  Pipe Buffer]
               @ (if sourceMaps bc then [Pipe SourcemapsInit] else []),
               Some NotAnArray)
            \<and> snd (snd (AnotherBrowserifyBrunchPlugin e bc)) = Some NotAnArray)
         \<and> (\<not> truthy fns \<longrightarrow> snd (bundle_gulp this changedFiles) = None)"
proof (intro conjI impI)
  assume a: "truthy fns \<and> \<not> instanceof_Array fns"
  with assms have t: "truthy (gulpPipeCreateFns (this_config this))"
    and n: "\<not> instanceof_Array (gulpPipeCreateFns (this_config this))"
    by (simp_all add: constructed_config)
  show "bundle_gulp this changedFiles =
          ((if multipleFilesChanged changedFiles
            then [ConsoleLog [Plain ''\<newline>Start'', Cyan (Plain ''bundling'')] ] else [])
           @ [BundlerBundle, BundleOnError,
              Pipe (Source (path_resolve e [entry (plugins_anotherBrowserify bc)])),
              Pipe Buffer]
           @ (if sourceMaps bc then [Pipe SourcemapsInit] else []),
           Some NotAnArray)"
    using bundle_gulp_not_array [OF t n, of changedFiles] assms(1)
    by (simp add: constructed_flags constructed_paths)
  show "snd (snd (AnotherBrowserifyBrunchPlugin e bc)) = Some NotAnArray"
    using bundle_gulp_not_array [OF t n, of None] assms(1)
    by (simp add: constructed_first_bundle)
next
  assume "\<not> truthy fns"
  with assms have "\<not> truthy (gulpPipeCreateFns (this_config this))"
    by (simp add: constructed_config)
  then show "snd (bundle_gulp this changedFiles) = None"
    by (rule bundle_gulp_falsy)
qed

theorem non_array_fns_throws_after_bundler_started_witness:
  "truthy (JObj []) \<and> \<not> instanceof_Array (JObj [])
   \<and> bundle_gulp
        (fst (AnotherBrowserifyBrunchPlugin (sample_env [])
                (sample_brunchConfig True True
                   (sample_config\<lparr>gulpPipeCreateFns := JObj []\<rparr>))))
        (Some [''/home/app/app/a.js'', ''/home/app/app/b.js''])
       = ([ConsoleLog [Plain ''\<newline>Start'', Cyan (Plain ''bundling'')],
           BundlerBundle, BundleOnError, Pipe (Source ''/home/app/app/main.js''), Pipe Buffer,
           Pipe SourcemapsInit],
          Some NotAnArray)
   \<and> snd (snd (AnotherBrowserifyBrunchPlugin (sample_env [])
                (sample_brunchConfig True True
                   (sample_config\<lparr>gulpPipeCreateFns := JObj []\<rparr>))))
       = Some NotAnArray"
  using non_array_fns_throws_after_bundler_started
    [where e = "sample_env []"
       and bc = "sample_brunchConfig True True (sample_config\<lparr>gulpPipeCreateFns := JObj []\<rparr>)"
       and changedFiles = "Some [''/home/app/app/a.js'', ''/home/app/app/b.js'']",
     OF refl refl]
  by (simp add: sample_env_def sample_brunchConfig_def sample_config_def posix_resolve_def
      multipleFilesChanged_def)

text \<open>
  C2. With the optimize flag set, and \<open>gulpPipeCreateFns\<close> left out or an array of
  factories (exactly the configurations for which \<open>bundle()\<close> returns), every call of
  \<open>bundle()\<close> attaches the minifier directly after the last custom stage (the custom
  stages in the order supplied) and directly before the rename stage.
  In the other variant the minifier is not a stage: it is registered as the bundler's last
  transform, after the host's transforms.
\<close>

theorem minifier_after_custom_stages_before_rename:
  assumes "optimize bc"
    and "supplies (gulpPipeCreateFns (plugins_anotherBrowserify bc)) ns"
    and "this = fst (AnotherBrowserifyBrunchPlugin e bc)"
  shows "bundle_gulp this changedFiles =
           ((if multipleFilesChanged changedFiles
             then [ConsoleLog [Plain ''\<newline>Start'', Cyan (Plain ''bundling'')] ] else [])
            @ [BundlerBundle, BundleOnError, Pipe (Source (this_entryFile this)), Pipe Buffer]
            @ (if sourceMaps bc then [Pipe SourcemapsInit] else [])
            @ map (\<lambda>n. Pipe (Created n)) ns
            @ [Pipe (Uglify (this_uglifyOptions this)),
               Pipe (Rename (this_gulpRenameOptions this))]
            @ (if sourceMaps bc then [Pipe (SourcemapsWrite ''.'')] else [])
            @ [Pipe (GulpDest (this_gulpDestDir this)), OnFinish],
            None)
         \<and> transforms_of (fst (snd (AnotherBrowserifyBrunchPlugin_exorcist e bc)))
             = map UserTransform
                 (case transforms (plugins_anotherBrowserify bc) of None \<Rightarrow> [] | Some trs \<Rightarrow> trs)
               @ [Uglifyify_global]"
proof
  from assms(2,3) have "supplies (gulpPipeCreateFns (this_config this)) ns"
    by (simp add: constructed_config)
  from bundle_gulp_supplied [OF this, of changedFiles] assms(1,3)
  show "bundle_gulp this changedFiles =
           ((if multipleFilesChanged changedFiles
             then [ConsoleLog [Plain ''\<newline>Start'', Cyan (Plain ''bundling'')] ] else [])
            @ [BundlerBundle, BundleOnError, Pipe (Source (this_entryFile this)), Pipe Buffer]
            @ (if sourceMaps bc then [Pipe SourcemapsInit] else [])
            @ map (\<lambda>n. Pipe (Created n)) ns
            @ [Pipe (Uglify (this_uglifyOptions this)),
               Pipe (Rename (this_gulpRenameOptions this))]
            @ (if sourceMaps bc then [Pipe (SourcemapsWrite ''.'')] else [])
            @ [Pipe (GulpDest (this_gulpDestDir this)), OnFinish],
            None)"
    by (simp add: constructed_flags)
next
  from assms(1)
  show "transforms_of (fst (snd (AnotherBrowserifyBrunchPlugin_exorcist e bc)))
          = map UserTransform
              (case transforms (plugins_anotherBrowserify bc) of None \<Rightarrow> [] | Some trs \<Rightarrow> trs)
            @ [Uglifyify_global]"
    by (simp add: AnotherBrowserifyBrunchPlugin_exorcist_def bundle_exorcist_def Let_def
        transforms_of_def multipleFilesChanged_def comp_def split: option.split)
qed

theorem minifier_after_custom_stages_before_rename_witness:
  "optimize (sample_brunchConfig False True
      (sample_config\<lparr>gulpPipeCreateFns := JArr [JFn 7, JFn 3]\<rparr>))
   \<and> supplies (JArr [JFn 7, JFn 3]) [7, 3]
   \<and> stages_of (fst (bundle_gulp
        (fst (AnotherBrowserifyBrunchPlugin (sample_env [])
                (sample_brunchConfig False True
                   (sample_config\<lparr>gulpPipeCreateFns := JArr [JFn 7, JFn 3]\<rparr>)))) None))
       = [Source ''/home/app/app/main.js'', Buffer, Created 7, Created 3, Uglify [],
          Rename \<lparr>dirname = ''js'', basename = ''app.min'', extname = ''.js''\<rparr>,
          GulpDest ''/home/app/public'']"
proof -
  have o: "optimize (sample_brunchConfig False True
      (sample_config\<lparr>gulpPipeCreateFns := JArr [JFn 7, JFn 3]\<rparr>))"
    by (simp add: sample_brunchConfig_def)
  have s: "supplies (gulpPipeCreateFns (plugins_anotherBrowserify (sample_brunchConfig False True
      (sample_config\<lparr>gulpPipeCreateFns := JArr [JFn 7, JFn 3]\<rparr>)))) [7, 3]"
    by (simp add: sample_brunchConfig_def supplies_def)
  have u: "this_uglifyOptions (fst (AnotherBrowserifyBrunchPlugin (sample_env [])
      (sample_brunchConfig False True
         (sample_config\<lparr>gulpPipeCreateFns := JArr [JFn 7, JFn 3]\<rparr>)))) = []"
    by (simp add: AnotherBrowserifyBrunchPlugin_def Let_def sample_brunchConfig_def
        sample_config_def)
  have r: "posix_dirname ''js/app.min.js'' = ''js''"
    "posix_extname ''js/app.min.js'' = ''.js''"
    "posix_basename ''js/app.min.js'' ''.js'' = ''app.min''"
    by (simp_all add: posix_dirname_def posix_extname_def posix_basename_def last_segment_def
        Let_def suffix_def)
  from minifier_after_custom_stages_before_rename [OF o s refl, of "sample_env []" None]
  show ?thesis
    using o s u r
    by (simp add: stages_of_def constructed_paths multipleFilesChanged_def sample_env_def
        sample_brunchConfig_def sample_config_def posix_resolve_def)
qed

lemma constructed_exorcist:
  "thisx_brunchConfig (fst (AnotherBrowserifyBrunchPlugin_exorcist e bc)) = bc"
  "thisx_config (fst (AnotherBrowserifyBrunchPlugin_exorcist e bc)) = plugins_anotherBrowserify bc"
  "thisx_outFile (fst (AnotherBrowserifyBrunchPlugin_exorcist e bc))
     = path_resolve e [paths_public bc, outFile (plugins_anotherBrowserify bc)]"
  "thisx_outMapFile (fst (AnotherBrowserifyBrunchPlugin_exorcist e bc))
     = path_resolve e [paths_public bc, mapFile (plugins_anotherBrowserify bc)]"
  by (simp_all add: AnotherBrowserifyBrunchPlugin_exorcist_def Let_def)

lemma stages_of_bundle_exorcist:
  "stages_of (fst (bundle_exorcist this changedFiles)) =
     (if sourceMaps (thisx_brunchConfig this) then [Exorcist (thisx_outMapFile this)] else [])
     @ [CreateWriteStream (thisx_outFile this)]"
  by (simp add: bundle_exorcist_def stages_of_def Let_def)

text \<open>
  C3. With source maps off, optimize off and no custom stage, the only stages are source,
  buffer, rename and destination: what is written under the public directory has the
  bytes of the bundler's output and the directory, base name and extension computed from
  \<open>outFile\<close>. The other variant writes the same bytes to the resolved \<open>outFile\<close>.
\<close>

theorem plain_build_writes_raw_bundle_renamed:
  assumes "\<not> sourceMaps bc" and "\<not> optimize bc"
    and "supplies (gulpPipeCreateFns (plugins_anotherBrowserify bc)) []"
    and "this = fst (AnotherBrowserifyBrunchPlugin e bc)"
    and "thisx = fst (AnotherBrowserifyBrunchPlugin_exorcist e bc)"
    and "out = outFile (plugins_anotherBrowserify bc)"
  shows "stages_of (fst (bundle_gulp this changedFiles))
           = [Source (this_entryFile this), Buffer, Rename (this_gulpRenameOptions this),
              GulpDest (this_gulpDestDir this)]
         \<and> written (run_pipeline other (stages_of (fst (bundle_gulp this changedFiles))) raw)
           = [(InDirectory (path_resolve e [paths_public bc])
                 (Parts \<lparr>dirname = path_dirname e out,
                         basename = path_basename e out (path_extname e out),
                         extname = path_extname e out\<rparr>),
               raw)]
         \<and> written (run_pipeline other (stages_of (fst (bundle_exorcist thisx changedFiles))) raw)
           = [(AtPath (path_resolve e [paths_public bc, out]), raw)]"
proof -
  from assms(3,4) have "supplies (gulpPipeCreateFns (this_config this)) []"
    by (simp add: constructed_config)
  from bundle_gulp_supplied [OF this, of changedFiles] assms(1,2,4)
  have st: "stages_of (fst (bundle_gulp this changedFiles))
           = [Source (this_entryFile this), Buffer, Rename (this_gulpRenameOptions this),
              GulpDest (this_gulpDestDir this)]"
    by (simp add: constructed_flags stages_of_def)
  have w: "written (run_pipeline other (stages_of (fst (bundle_gulp this changedFiles))) raw)
           = [(InDirectory (this_gulpDestDir this) (Parts (this_gulpRenameOptions this)), raw)]"
    unfolding st by (simp add: run_pipeline_def run_stage_def)
  have x: "written (run_pipeline other (stages_of (fst (bundle_exorcist thisx changedFiles))) raw)
           = [(AtPath (thisx_outFile thisx), raw)]"
    using assms(1,5)
    by (simp add: stages_of_bundle_exorcist constructed_exorcist run_pipeline_def run_stage_def)
  from st w x assms(4,5,6) show ?thesis
    by (simp add: constructed_paths constructed_exorcist)
qed

theorem plain_build_writes_raw_bundle_renamed_witness:
  "\<not> sourceMaps (sample_brunchConfig False False sample_config)
   \<and> \<not> optimize (sample_brunchConfig False False sample_config)
   \<and> supplies (gulpPipeCreateFns sample_config) []
   \<and> written (run_pipeline (\<lambda>st s. s)
        (stages_of (fst (bundle_gulp
           (fst (AnotherBrowserifyBrunchPlugin (sample_env [])
                   (sample_brunchConfig False False sample_config))) None)))
        ''require=function(){}'')
       = [(InDirectory ''/home/app/public''
             (Parts \<lparr>dirname = ''js'', basename = ''app.min'', extname = ''.js''\<rparr>),
           ''require=function(){}'')]"
proof -
  have a: "\<not> sourceMaps (sample_brunchConfig False False sample_config)"
    and b: "\<not> optimize (sample_brunchConfig False False sample_config)"
    and c: "supplies (gulpPipeCreateFns
              (plugins_anotherBrowserify (sample_brunchConfig False False sample_config))) []"
    by (simp_all add: sample_brunchConfig_def sample_config_def supplies_def)
  have r: "posix_dirname ''js/app.min.js'' = ''js''"
    "posix_extname ''js/app.min.js'' = ''.js''"
    "posix_basename ''js/app.min.js'' ''.js'' = ''app.min''"
    by (simp_all add: posix_dirname_def posix_extname_def posix_basename_def last_segment_def
        Let_def suffix_def)
  from plain_build_writes_raw_bundle_renamed [OF a b c refl refl refl,
      where e = "sample_env []" and changedFiles = None and other = "\<lambda>st s. s"
        and raw = "''require=function(){}''", THEN conjunct2, THEN conjunct1]
  show ?thesis
    using r
    by (simp add: sample_env_def sample_brunchConfig_def sample_config_def posix_resolve_def
        supplies_def)
qed

section \<open>Options handed to the minifier and to the bundler\<close>

lemma map_of_js_set: "map_of (js_set k v ob) = (map_of ob)(k \<mapsto> v)"
  by (simp add: js_set_def update_conv')

lemma js_get_js_set: "js_get (js_set k v ob) k' = (if k' = k then v else js_get ob k')"
  by (simp add: js_get_def map_of_js_set)

lemma js_in_keys: "js_in k ob \<longleftrightarrow> k \<in> set (js_keys ob)"
  by (simp add: js_in_def js_keys_def map_of_eq_None_iff)

lemma js_get_present: "js_in k ob \<Longrightarrow> Some (js_get ob k) = map_of ob k"
  by (auto simp: js_in_def js_get_def)

lemma map_of_copied:
  "set ks \<subseteq> set (js_keys src) \<Longrightarrow>
   map_of (fold (\<lambda>key b. js_set key (js_get src key) b) ks b0) k
     = (if k \<in> set ks then map_of src k else map_of b0 k)"
proof (induction ks arbitrary: b0)
  case Nil
  then show ?case by simp
next
  case (Cons x xs)
  then have "js_in x src" by (simp add: js_in_keys)
  then have "Some (js_get src x) = map_of src x" by (rule js_get_present)
  with Cons show ?case by (simp add: map_of_js_set)
qed

lemma map_of_bOptions:
  "map_of (bOptions bc w) k =
     (let host = (case browserifyOptions (plugins_anotherBrowserify bc) of
                    None \<Rightarrow> [] | Some ob \<Rightarrow> ob)
      in if w \<and> (k = ''cache'' \<or> k = ''packageCache'') then Some (JObj [])
         else if sourceMaps bc \<and> k = ''debug'' then Some (JBool True)
         else if js_in k host then map_of host k
         else if k = ''extensions'' then Some (JArr [JStr ''.js'', JStr ''.es6''])
         else None)"
  by (simp add: bOptions_def Let_def map_of_js_set map_of_copied js_in_keys)

lemma watching_iff: "watching args \<longleftrightarrow> ''watch'' \<in> set args"
  by (induction args) auto

lemma pipeCustom_only_created:
  "x \<in> set (fst (pipeCustom i xs)) \<Longrightarrow> \<exists>n. x = Pipe (Created n)"
  by (induction i xs rule: pipeCustom.induct) (auto split: prod.splits)

lemma customPipes_only_created:
  "x \<in> set (fst (customPipes fns)) \<Longrightarrow> \<exists>n. x = Pipe (Created n)"
  by (cases fns) (auto simp: customPipes_def split: if_splits dest: pipeCustom_only_created)

lemma stages_of_mem: "st \<in> set (stages_of es) \<longleftrightarrow> Pipe st \<in> set es"
  by (induction es) (auto simp: stages_of_def split: effect.splits)

lemma uglify_options_passed:
  assumes "Uglify opts \<in> set (stages_of (fst (bundle_gulp this changedFiles)))"
  shows "opts = this_uglifyOptions this"
proof -
  from assms have "Pipe (Uglify opts) \<in> set (fst (bundle_gulp this changedFiles))"
    by (simp add: stages_of_mem)
  then show ?thesis
    by (auto simp: bundle_gulp_def Let_def split: if_splits option.splits
        dest: customPipes_only_created)
qed

lemma constructed_uglifyOptions:
  "js_get (this_uglifyOptions (fst (AnotherBrowserifyBrunchPlugin e bc))) k =
     (let host = (case uglifyOptions (plugins_anotherBrowserify bc) of None \<Rightarrow> [] | Some u \<Rightarrow> u)
      in if sourceMaps bc \<and> \<not> js_in ''compress'' host \<and> k = ''compress'' then JBool False
         else js_get host k)"
  by (simp add: AnotherBrowserifyBrunchPlugin_def Let_def js_get_js_set)

lemma constructed_bundler:
  "this_watching (fst (AnotherBrowserifyBrunchPlugin e bc)) = watching (argv e)"
  "this_browserify (fst (AnotherBrowserifyBrunchPlugin e bc))
     = BrowserifyInst (bOptions bc (watching (argv e)))"
  "this_bundler (fst (AnotherBrowserifyBrunchPlugin e bc))
     = (if watching (argv e) then WatchifyInst (BrowserifyInst (bOptions bc (watching (argv e))))
        else BrowserifyInst (bOptions bc (watching (argv e))))"
  "this_watchify (fst (AnotherBrowserifyBrunchPlugin e bc))
     = (if watching (argv e)
        then Some (WatchifyInst (BrowserifyInst (bOptions bc (watching (argv e))))) else None)"
  "take 1 (fst (snd (AnotherBrowserifyBrunchPlugin e bc)))
     = [Browserify (bOptions bc (watching (argv e)))]"
  by (simp_all add: AnotherBrowserifyBrunchPlugin_def Let_def)

lemma constructed_bundler_exorcist:
  "thisx_watching (fst (AnotherBrowserifyBrunchPlugin_exorcist e bc)) = watching (argv e)"
  "thisx_browserify (fst (AnotherBrowserifyBrunchPlugin_exorcist e bc))
     = BrowserifyInst (bOptions bc (watching (argv e)))"
  "thisx_bundler (fst (AnotherBrowserifyBrunchPlugin_exorcist e bc))
     = (if watching (argv e) then WatchifyInst (BrowserifyInst (bOptions bc (watching (argv e))))
        else BrowserifyInst (bOptions bc (watching (argv e))))"
  "take 1 (fst (snd (AnotherBrowserifyBrunchPlugin_exorcist e bc)))
     = [Browserify (bOptions bc (watching (argv e)))]"
  by (simp_all add: AnotherBrowserifyBrunchPlugin_exorcist_def Let_def)

text \<open>
  C4. In the gulp variant, with source maps and optimize both on, the \<open>compress\<close> option of
  whatever options object reaches the minifier is \<open>false\<close>, unless the host's
  \<open>uglifyOptions\<close> has a \<open>compress\<close> key, and then it is the host's value; the other
  options are the host's. The minifier stage is attached whenever \<open>gulpPipeCreateFns\<close> is
  left out or an array of factories.
\<close>

theorem compressor_off_unless_host_sets_it:
  assumes "sourceMaps bc" and "optimize bc"
    and "this = fst (AnotherBrowserifyBrunchPlugin e bc)"
    and "host = (case uglifyOptions (plugins_anotherBrowserify bc) of None \<Rightarrow> [] | Some u \<Rightarrow> u)"
  shows "(\<forall>opts. Uglify opts \<in> set (stages_of (fst (bundle_gulp this changedFiles))) \<longrightarrow>
            js_get opts ''compress''
              = (if js_in ''compress'' host then js_get host ''compress'' else JBool False)
            \<and> (\<forall>k. k \<noteq> ''compress'' \<longrightarrow> js_get opts k = js_get host k))
         \<and> (supplies (gulpPipeCreateFns (plugins_anotherBrowserify bc)) ns \<longrightarrow>
              Uglify (this_uglifyOptions this)
                \<in> set (stages_of (fst (bundle_gulp this changedFiles))))"
proof (intro conjI allI impI)
  fix opts
  assume "Uglify opts \<in> set (stages_of (fst (bundle_gulp this changedFiles)))"
  then have o: "opts = this_uglifyOptions this" by (rule uglify_options_passed)
  from o assms(1,3,4)
  show "js_get opts ''compress''
          = (if js_in ''compress'' host then js_get host ''compress'' else JBool False)"
    by (simp add: constructed_uglifyOptions)
  fix k :: string
  assume "k \<noteq> ''compress''"
  with o assms(3,4) show "js_get opts k = js_get host k"
    by (simp add: constructed_uglifyOptions)
next
  assume "supplies (gulpPipeCreateFns (plugins_anotherBrowserify bc)) ns"
  with assms(3) have "supplies (gulpPipeCreateFns (this_config this)) ns"
    by (simp add: constructed_config)
  from bundle_gulp_supplied [OF this, of changedFiles] assms(2,3)
  show "Uglify (this_uglifyOptions this) \<in> set (stages_of (fst (bundle_gulp this changedFiles)))"
    by (simp add: stages_of_mem constructed_flags)
qed

theorem compressor_off_unless_host_sets_it_witness:
  "sourceMaps (sample_brunchConfig True True
      (sample_config\<lparr>uglifyOptions := Some [(''mangle'', JBool True)]\<rparr>))
   \<and> optimize (sample_brunchConfig True True
      (sample_config\<lparr>uglifyOptions := Some [(''mangle'', JBool True)]\<rparr>))
   \<and> supplies JUndefined []
   \<and> Uglify [(''mangle'', JBool True), (''compress'', JBool False)]
       \<in> set (stages_of (fst (bundle_gulp
           (fst (AnotherBrowserifyBrunchPlugin (sample_env [])
              (sample_brunchConfig True True
                 (sample_config\<lparr>uglifyOptions := Some [(''mangle'', JBool True)]\<rparr>)))) None)))
   \<and> js_get [(''mangle'', JBool True), (''compress'', JBool False)] ''compress'' = JBool False"
proof -
  have a: "sourceMaps (sample_brunchConfig True True
      (sample_config\<lparr>uglifyOptions := Some [(''mangle'', JBool True)]\<rparr>))"
    and b: "optimize (sample_brunchConfig True True
      (sample_config\<lparr>uglifyOptions := Some [(''mangle'', JBool True)]\<rparr>))"
    by (simp_all add: sample_brunchConfig_def)
  have u: "this_uglifyOptions (fst (AnotherBrowserifyBrunchPlugin (sample_env [])
              (sample_brunchConfig True True
                 (sample_config\<lparr>uglifyOptions := Some [(''mangle'', JBool True)]\<rparr>))))
           = [(''mangle'', JBool True), (''compress'', JBool False)]"
    by (simp add: AnotherBrowserifyBrunchPlugin_def Let_def sample_brunchConfig_def
        sample_config_def js_in_def js_set_def)
  from compressor_off_unless_host_sets_it [OF a b refl refl,
      where e = "sample_env []" and changedFiles = None and ns = "[]"]
  show ?thesis
    using a b u
    by (simp add: supplies_def sample_brunchConfig_def sample_config_def js_in_def)
qed

lemma in_flight_kept:
  assumes "\<forall>st s. in_flight s \<noteq> [] \<longrightarrow> in_flight (other st s) \<noteq> []"
    and "in_flight s \<noteq> []"
  shows "in_flight (run_stage (map_stage srcmap linked other) st s) \<noteq> []"
  using assms
  by (cases st) (auto simp: run_stage_def map_stage_def neq_Nil_conv)

lemma in_flight_kept_fold:
  assumes "\<forall>st s. in_flight s \<noteq> [] \<longrightarrow> in_flight (other st s) \<noteq> []"
    and "in_flight s \<noteq> []"
  shows "in_flight (fold (run_stage (map_stage srcmap linked other)) sts s) \<noteq> []"
  using assms(2)
proof (induction sts arbitrary: s)
  case Nil
  then show ?case by simp
next
  case (Cons st sts)
  from in_flight_kept [OF assms(1) Cons.prems]
  have "in_flight (run_stage (map_stage srcmap linked other) st s) \<noteq> []" .
  from Cons.IH [OF this] show ?case by simp
qed

lemma map_written_beside_bundle:
  assumes "in_flight s \<noteq> []"
  shows "\<exists>code smap.
           (InDirectory d (Parts ro), code)
             \<in> set (written (fold (run_stage (map_stage srcmap linked other))
                               [Rename ro, SourcemapsWrite w, GulpDest d] s))
           \<and> (InDirectory d (SiblingMap w (Parts ro)), smap)
             \<in> set (written (fold (run_stage (map_stage srcmap linked other))
                               [Rename ro, SourcemapsWrite w, GulpDest d] s))"
proof -
  from assms obtain a rest where "in_flight s = a # rest"
    by (cases "in_flight s") auto
  then show ?thesis
    by (auto simp: run_stage_def map_stage_def)
qed

lemma exorcist_written:
  "written (run_pipeline (map_stage srcmap linked other) [Exorcist m, CreateWriteStream f] raw)
     = [(AtPath m, srcmap \<lparr>art_name = Unnamed, art_contents = raw\<rparr>),
        (AtPath f, linked \<lparr>art_name = Unnamed, art_contents = raw\<rparr>)]"
  by (simp add: run_pipeline_def run_stage_def map_stage_def)

text \<open>
  C5. With source maps on, the options object the constructor passes to the bundler has
  \<open>debug\<close> set to \<open>true\<close>, whatever the host put there and whether or not watch mode is
  on, and every call of \<open>bundle()\<close> produces a map next to the bundle. The gulp variant
  (for \<open>gulpPipeCreateFns\<close> left out or an array of factories) attaches the source-map
  writer between rename and destination, so that under the public directory the renamed
  bundle and its sibling map are both written, whenever source-map init, the custom stages
  and the minifier hand on what they receive. The other variant attaches the filter that
  moves the map out, so the map is written to the resolved \<open>mapFile\<close> and the bundle to
  the resolved \<open>outFile\<close>.
\<close>

theorem source_maps_force_debug_and_write_map:
  assumes "sourceMaps bc"
    and "this = fst (AnotherBrowserifyBrunchPlugin e bc)"
    and "thisx = fst (AnotherBrowserifyBrunchPlugin_exorcist e bc)"
    and "bo = bOptions bc (watching (argv e))"
    and "\<forall>st s. in_flight s \<noteq> [] \<longrightarrow> in_flight (other st s) \<noteq> []"
    and "sem = map_stage srcmap linked other"
  shows "take 1 (fst (snd (AnotherBrowserifyBrunchPlugin e bc))) = [Browserify bo]
         \<and> take 1 (fst (snd (AnotherBrowserifyBrunchPlugin_exorcist e bc))) = [Browserify bo]
         \<and> js_get bo ''debug'' = JBool True
         \<and> (supplies (gulpPipeCreateFns (plugins_anotherBrowserify bc)) ns \<longrightarrow>
              stages_of (fst (bundle_gulp this changedFiles))
                = [Source (this_entryFile this), Buffer, SourcemapsInit]
                  @ map Created ns
                  @ (if optimize bc then [Uglify (this_uglifyOptions this)] else [])
                  @ [Rename (this_gulpRenameOptions this), SourcemapsWrite ''.'',
                     GulpDest (this_gulpDestDir this)]
              \<and> (\<exists>code smap.
                    (InDirectory (this_gulpDestDir this) (Parts (this_gulpRenameOptions this)),
                     code)
                      \<in> set (written (run_pipeline sem
                                 (stages_of (fst (bundle_gulp this changedFiles))) raw))
                    \<and> (InDirectory (this_gulpDestDir this)
                         (SiblingMap ''.'' (Parts (this_gulpRenameOptions this))),
                       smap)
                      \<in> set (written (run_pipeline sem
                                 (stages_of (fst (bundle_gulp this changedFiles))) raw))))
         \<and> stages_of (fst (bundle_exorcist thisx changedFiles))
             = [Exorcist (path_resolve e [paths_public bc, mapFile (plugins_anotherBrowserify bc)]),
                CreateWriteStream
                  (path_resolve e [paths_public bc, outFile (plugins_anotherBrowserify bc)])]
         \<and> written (run_pipeline sem (stages_of (fst (bundle_exorcist thisx changedFiles))) raw)
             = [(AtPath (path_resolve e [paths_public bc, mapFile (plugins_anotherBrowserify bc)]),
                 srcmap \<lparr>art_name = Unnamed, art_contents = raw\<rparr>),
                (AtPath (path_resolve e [paths_public bc, outFile (plugins_anotherBrowserify bc)]),
                 linked \<lparr>art_name = Unnamed, art_contents = raw\<rparr>)]"
proof (intro conjI impI)
  from assms(4) show "take 1 (fst (snd (AnotherBrowserifyBrunchPlugin e bc))) = [Browserify bo]"
    using constructed_bundler(5) [of e bc] by simp
  from assms(4)
  show "take 1 (fst (snd (AnotherBrowserifyBrunchPlugin_exorcist e bc))) = [Browserify bo]"
    using constructed_bundler_exorcist(4) [of e bc] by simp
  from assms(1,4) show "js_get bo ''debug'' = JBool True"
    by (simp add: js_get_def map_of_bOptions Let_def)
  from assms(1,3)
  show x: "stages_of (fst (bundle_exorcist thisx changedFiles))
          = [Exorcist (path_resolve e [paths_public bc, mapFile (plugins_anotherBrowserify bc)]),
             CreateWriteStream
               (path_resolve e [paths_public bc, outFile (plugins_anotherBrowserify bc)])]"
    by (simp add: stages_of_bundle_exorcist constructed_exorcist)
  show "written (run_pipeline sem (stages_of (fst (bundle_exorcist thisx changedFiles))) raw)
             = [(AtPath (path_resolve e [paths_public bc, mapFile (plugins_anotherBrowserify bc)]),
                 srcmap \<lparr>art_name = Unnamed, art_contents = raw\<rparr>),
                (AtPath (path_resolve e [paths_public bc, outFile (plugins_anotherBrowserify bc)]),
                 linked \<lparr>art_name = Unnamed, art_contents = raw\<rparr>)]"
    unfolding x assms(6) by (rule exorcist_written)
next
  assume "supplies (gulpPipeCreateFns (plugins_anotherBrowserify bc)) ns"
  with assms(2) have "supplies (gulpPipeCreateFns (this_config this)) ns"
    by (simp add: constructed_config)
  from bundle_gulp_supplied [OF this, of changedFiles] assms(1,2)
  show g: "stages_of (fst (bundle_gulp this changedFiles))
          = [Source (this_entryFile this), Buffer, SourcemapsInit]
            @ map Created ns
            @ (if optimize bc then [Uglify (this_uglifyOptions this)] else [])
            @ [Rename (this_gulpRenameOptions this), SourcemapsWrite ''.'',
               GulpDest (this_gulpDestDir this)]"
    by (simp add: stages_of_def constructed_flags comp_def)
  define before where "before = [Source (this_entryFile this), Buffer, SourcemapsInit]
            @ map Created ns
            @ (if optimize bc then [Uglify (this_uglifyOptions this)] else [])"
  define s0 where "s0 = fold (run_stage sem) before
       \<lparr>in_flight = [\<lparr>art_name = Unnamed, art_contents = raw\<rparr>], written = []\<rparr>"
  have split: "stages_of (fst (bundle_gulp this changedFiles))
          = before @ [Rename (this_gulpRenameOptions this), SourcemapsWrite ''.'',
                      GulpDest (this_gulpDestDir this)]"
    unfolding g before_def by simp
  have run: "run_pipeline sem (stages_of (fst (bundle_gulp this changedFiles))) raw
          = fold (run_stage sem) [Rename (this_gulpRenameOptions this), SourcemapsWrite ''.'',
                                  GulpDest (this_gulpDestDir this)] s0"
    unfolding split run_pipeline_def s0_def by (simp only: fold_append comp_apply)
  have "in_flight s0 \<noteq> []"
    unfolding s0_def assms(6) by (rule in_flight_kept_fold [OF assms(5)]) simp
  from map_written_beside_bundle [OF this, of "this_gulpDestDir this"
      "this_gulpRenameOptions this" srcmap linked other "''.''"]
  show "\<exists>code smap.
          (InDirectory (this_gulpDestDir this) (Parts (this_gulpRenameOptions this)), code)
            \<in> set (written (run_pipeline sem
                       (stages_of (fst (bundle_gulp this changedFiles))) raw))
          \<and> (InDirectory (this_gulpDestDir this)
               (SiblingMap ''.'' (Parts (this_gulpRenameOptions this))),
             smap)
            \<in> set (written (run_pipeline sem
                       (stages_of (fst (bundle_gulp this changedFiles))) raw))"
    unfolding run unfolding assms(6) .
qed

theorem source_maps_force_debug_and_write_map_witness:
  "sourceMaps (sample_brunchConfig True False
      (sample_config\<lparr>browserifyOptions := Some [(''debug'', JBool False)]\<rparr>))
   \<and> supplies JUndefined []
   \<and> take 1 (fst (snd (AnotherBrowserifyBrunchPlugin (sample_env [])
        (sample_brunchConfig True False
           (sample_config\<lparr>browserifyOptions := Some [(''debug'', JBool False)]\<rparr>)))))
       = [Browserify [(''extensions'', JArr [JStr ''.js'', JStr ''.es6'']),
                      (''debug'', JBool True)] ]
   \<and> (\<exists>code smap.
         (InDirectory ''/home/app/public''
            (Parts \<lparr>dirname = ''js'', basename = ''app.min'', extname = ''.js''\<rparr>), code)
           \<in> set (written (run_pipeline
                 (map_stage (\<lambda>a. ''{}'') (\<lambda>a. art_contents a @ ''//# map'') (\<lambda>st s. s))
                 (stages_of (fst (bundle_gulp
                    (fst (AnotherBrowserifyBrunchPlugin (sample_env [])
                       (sample_brunchConfig True False
                          (sample_config\<lparr>browserifyOptions :=
                             Some [(''debug'', JBool False)]\<rparr>)))) None)))
                 ''require=1''))
         \<and> (InDirectory ''/home/app/public''
              (SiblingMap ''.''
                 (Parts \<lparr>dirname = ''js'', basename = ''app.min'', extname = ''.js''\<rparr>)), smap)
           \<in> set (written (run_pipeline
                 (map_stage (\<lambda>a. ''{}'') (\<lambda>a. art_contents a @ ''//# map'') (\<lambda>st s. s))
                 (stages_of (fst (bundle_gulp
                    (fst (AnotherBrowserifyBrunchPlugin (sample_env [])
                       (sample_brunchConfig True False
                          (sample_config\<lparr>browserifyOptions :=
                             Some [(''debug'', JBool False)]\<rparr>)))) None)))
                 ''require=1'')))
   \<and> written (run_pipeline
        (map_stage (\<lambda>a. ''{}'') (\<lambda>a. art_contents a @ ''//# map'') (\<lambda>st s. s))
        (stages_of (fst (bundle_exorcist
           (fst (AnotherBrowserifyBrunchPlugin_exorcist (sample_env [])
              (sample_brunchConfig True False
                 (sample_config\<lparr>browserifyOptions := Some [(''debug'', JBool False)]\<rparr>))))
           None)))
        ''require=1'')
       = [(AtPath ''/home/app/public/js/app.js.map'', ''{}''),
          (AtPath ''/home/app/public/js/app.min.js'', ''require=1//# map'')]"
proof -
  have a: "sourceMaps (sample_brunchConfig True False
      (sample_config\<lparr>browserifyOptions := Some [(''debug'', JBool False)]\<rparr>))"
    by (simp add: sample_brunchConfig_def)
  have b: "bOptions (sample_brunchConfig True False
      (sample_config\<lparr>browserifyOptions := Some [(''debug'', JBool False)]\<rparr>))
      (watching (argv (sample_env [])))
      = [(''extensions'', JArr [JStr ''.js'', JStr ''.es6'']), (''debug'', JBool True)]"
    by (simp add: bOptions_def Let_def sample_brunchConfig_def sample_config_def sample_env_def
        js_keys_def js_get_def js_set_def)
  have k: "\<forall>st s. in_flight s \<noteq> [] \<longrightarrow> in_flight ((\<lambda>(st::stage) (s::flowing). s) st s) \<noteq> []"
    by simp
  have s: "supplies (gulpPipeCreateFns (plugins_anotherBrowserify (sample_brunchConfig True False
      (sample_config\<lparr>browserifyOptions := Some [(''debug'', JBool False)]\<rparr>)))) []"
    by (simp add: supplies_def sample_brunchConfig_def sample_config_def)
  have r: "posix_dirname ''js/app.min.js'' = ''js''"
    "posix_extname ''js/app.min.js'' = ''.js''"
    "posix_basename ''js/app.min.js'' ''.js'' = ''app.min''"
    by (simp_all add: posix_dirname_def posix_extname_def posix_basename_def last_segment_def
        Let_def suffix_def)
  have p: "this_gulpDestDir (fst (AnotherBrowserifyBrunchPlugin (sample_env [])
             (sample_brunchConfig True False
                (sample_config\<lparr>browserifyOptions := Some [(''debug'', JBool False)]\<rparr>))))
           = ''/home/app/public''"
    "this_gulpRenameOptions (fst (AnotherBrowserifyBrunchPlugin (sample_env [])
             (sample_brunchConfig True False
                (sample_config\<lparr>browserifyOptions := Some [(''debug'', JBool False)]\<rparr>))))
           = \<lparr>dirname = ''js'', basename = ''app.min'', extname = ''.js''\<rparr>"
    using r
    by (simp_all add: constructed_paths sample_env_def sample_brunchConfig_def sample_config_def
        posix_resolve_def)
  note t = source_maps_force_debug_and_write_map [OF a refl refl refl k refl,
      where e = "sample_env []" and changedFiles = None and ns = "[]"
        and srcmap = "\<lambda>a. ''{}''" and linked = "\<lambda>a. art_contents a @ ''//# map''"
        and raw = "''require=1''"]
  from t have t1: "take 1 (fst (snd (AnotherBrowserifyBrunchPlugin (sample_env [])
        (sample_brunchConfig True False
           (sample_config\<lparr>browserifyOptions := Some [(''debug'', JBool False)]\<rparr>)))))
       = [Browserify [(''extensions'', JArr [JStr ''.js'', JStr ''.es6'']),
                      (''debug'', JBool True)] ]"
    unfolding b by blast
  from t s have t2: "\<exists>code smap.
         (InDirectory ''/home/app/public''
            (Parts \<lparr>dirname = ''js'', basename = ''app.min'', extname = ''.js''\<rparr>), code)
           \<in> set (written (run_pipeline
                 (map_stage (\<lambda>a. ''{}'') (\<lambda>a. art_contents a @ ''//# map'') (\<lambda>st s. s))
                 (stages_of (fst (bundle_gulp
                    (fst (AnotherBrowserifyBrunchPlugin (sample_env [])
                       (sample_brunchConfig True False
                          (sample_config\<lparr>browserifyOptions :=
                             Some [(''debug'', JBool False)]\<rparr>)))) None)))
                 ''require=1''))
         \<and> (InDirectory ''/home/app/public''
              (SiblingMap ''.''
                 (Parts \<lparr>dirname = ''js'', basename = ''app.min'', extname = ''.js''\<rparr>)), smap)
           \<in> set (written (run_pipeline
                 (map_stage (\<lambda>a. ''{}'') (\<lambda>a. art_contents a @ ''//# map'') (\<lambda>st s. s))
                 (stages_of (fst (bundle_gulp
                    (fst (AnotherBrowserifyBrunchPlugin (sample_env [])
                       (sample_brunchConfig True False
                          (sample_config\<lparr>browserifyOptions :=
                             Some [(''debug'', JBool False)]\<rparr>)))) None)))
                 ''require=1''))"
    unfolding p by blast
  from t [THEN conjunct2, THEN conjunct2, THEN conjunct2, THEN conjunct2, THEN conjunct2]
  have t3: "written (run_pipeline
        (map_stage (\<lambda>a. ''{}'') (\<lambda>a. art_contents a @ ''//# map'') (\<lambda>st s. s))
        (stages_of (fst (bundle_exorcist
           (fst (AnotherBrowserifyBrunchPlugin_exorcist (sample_env [])
              (sample_brunchConfig True False
                 (sample_config\<lparr>browserifyOptions := Some [(''debug'', JBool False)]\<rparr>))))
           None)))
        ''require=1'')
       = [(AtPath ''/home/app/public/js/app.js.map'', ''{}''),
          (AtPath ''/home/app/public/js/app.min.js'', ''require=1//# map'')]"
    by (simp add: sample_env_def sample_brunchConfig_def sample_config_def posix_resolve_def)
  have u: "supplies JUndefined []" by (simp add: supplies_def)
  from a u t1 t2 t3 show ?thesis by blast
qed

lemma bundle_gulp_never_wraps:
  "Watchify \<notin> set (fst (bundle_gulp this changedFiles))"
  by (auto simp: bundle_gulp_def Let_def split: if_splits option.splits
      dest: customPipes_only_created)

lemma constructed_wraps_iff:
  "Watchify \<in> set (fst (snd (AnotherBrowserifyBrunchPlugin e bc))) \<longleftrightarrow> watching (argv e)"
  using bundle_gulp_never_wraps [of "fst (AnotherBrowserifyBrunchPlugin e bc)" None]
  by (auto simp: AnotherBrowserifyBrunchPlugin_def Let_def split: option.splits if_splits)

lemma constructed_exorcist_wraps_iff:
  "Watchify \<in> set (fst (snd (AnotherBrowserifyBrunchPlugin_exorcist e bc)))
     \<longleftrightarrow> watching (argv e)"
  by (auto simp: AnotherBrowserifyBrunchPlugin_exorcist_def bundle_exorcist_def Let_def
      split: option.splits if_splits)

text \<open>
  C6. The constructor decides watch mode by looking for an element \<open>'watch'\<close> in the
  process arguments and stores the answer; \<open>teardown\<close> reads the stored flag. Exactly when
  such an element exists, \<open>cache\<close> and \<open>packageCache\<close> of the bundler options are empty
  objects and the bundler is wrapped by the watch decorator; otherwise both keys are as
  the host's \<open>browserifyOptions\<close> has them and the bundler is the plain one.
\<close>

theorem watch_mode_from_argv:
  assumes "this = fst (AnotherBrowserifyBrunchPlugin e bc)"
    and "thisx = fst (AnotherBrowserifyBrunchPlugin_exorcist e bc)"
    and "w = (''watch'' \<in> set (argv e))"
    and "bo = bOptions bc w"
    and "host = (case browserifyOptions (plugins_anotherBrowserify bc) of
                   None \<Rightarrow> [] | Some ob \<Rightarrow> ob)"
  shows "this_watching this = w \<and> thisx_watching thisx = w
         \<and> teardown this = (if w then [BundlerClose] else [])
         \<and> this_browserify this = BrowserifyInst bo
         \<and> thisx_browserify thisx = BrowserifyInst bo
         \<and> this_bundler this = (if w then WatchifyInst (BrowserifyInst bo) else BrowserifyInst bo)
         \<and> thisx_bundler thisx = (if w then WatchifyInst (BrowserifyInst bo) else BrowserifyInst bo)
         \<and> (Watchify \<in> set (fst (snd (AnotherBrowserifyBrunchPlugin e bc))) \<longleftrightarrow> w)
         \<and> (Watchify \<in> set (fst (snd (AnotherBrowserifyBrunchPlugin_exorcist e bc))) \<longleftrightarrow> w)
         \<and> (w \<longrightarrow> js_get bo ''cache'' = JObj [] \<and> js_get bo ''packageCache'' = JObj [])
         \<and> (\<not> w \<longrightarrow> map_of bo ''cache'' = map_of host ''cache''
                    \<and> map_of bo ''packageCache'' = map_of host ''packageCache'')"
proof -
  from assms(3) have w: "watching (argv e) = w" by (simp add: watching_iff)
  have c: "w \<longrightarrow> js_get bo ''cache'' = JObj [] \<and> js_get bo ''packageCache'' = JObj []"
    using assms(4) by (simp add: js_get_def map_of_bOptions Let_def)
  have h: "\<not> w \<longrightarrow> map_of bo ''cache'' = map_of host ''cache''
                    \<and> map_of bo ''packageCache'' = map_of host ''packageCache''"
    using assms(4,5) by (auto simp: map_of_bOptions Let_def js_in_def)
  have t: "teardown this = (if w then [BundlerClose] else [])"
    using assms(1) w by (simp add: teardown_def constructed_bundler)
  from w c h t assms(1,2,4) show ?thesis
    by (simp add: constructed_bundler constructed_bundler_exorcist constructed_wraps_iff
        constructed_exorcist_wraps_iff)
qed

theorem watch_mode_from_argv_witness:
  "this_watching (fst (AnotherBrowserifyBrunchPlugin
      (sample_env [''node'', ''brunch'', ''watch'', ''--server''])
      (sample_brunchConfig False False
         (sample_config\<lparr>browserifyOptions := Some [(''cache'', JNum 1)]\<rparr>))))
   \<and> this_bundler (fst (AnotherBrowserifyBrunchPlugin
      (sample_env [''node'', ''brunch'', ''watch'', ''--server''])
      (sample_brunchConfig False False
         (sample_config\<lparr>browserifyOptions := Some [(''cache'', JNum 1)]\<rparr>))))
     = WatchifyInst (BrowserifyInst
         [(''extensions'', JArr [JStr ''.js'', JStr ''.es6'']), (''cache'', JObj []),
          (''packageCache'', JObj [])])
   \<and> \<not> this_watching (fst (AnotherBrowserifyBrunchPlugin
      (sample_env [''node'', ''brunch'', ''build''])
      (sample_brunchConfig False False
         (sample_config\<lparr>browserifyOptions := Some [(''cache'', JNum 1)]\<rparr>))))
   \<and> this_bundler (fst (AnotherBrowserifyBrunchPlugin
      (sample_env [''node'', ''brunch'', ''build''])
      (sample_brunchConfig False False
         (sample_config\<lparr>browserifyOptions := Some [(''cache'', JNum 1)]\<rparr>))))
     = BrowserifyInst
         [(''extensions'', JArr [JStr ''.js'', JStr ''.es6'']), (''cache'', JNum 1)]"
proof -
  have b: "bOptions (sample_brunchConfig False False
         (sample_config\<lparr>browserifyOptions := Some [(''cache'', JNum 1)]\<rparr>)) True
      = [(''extensions'', JArr [JStr ''.js'', JStr ''.es6'']), (''cache'', JObj []),
         (''packageCache'', JObj [])]"
    "bOptions (sample_brunchConfig False False
         (sample_config\<lparr>browserifyOptions := Some [(''cache'', JNum 1)]\<rparr>)) False
      = [(''extensions'', JArr [JStr ''.js'', JStr ''.es6'']), (''cache'', JNum 1)]"
    by (simp_all add: bOptions_def Let_def sample_brunchConfig_def sample_config_def
        js_keys_def js_get_def js_set_def)
  from watch_mode_from_argv [OF refl refl refl refl refl,
      where e = "sample_env [''node'', ''brunch'', ''watch'', ''--server'']"
        and bc = "sample_brunchConfig False False
         (sample_config\<lparr>browserifyOptions := Some [(''cache'', JNum 1)]\<rparr>)"]
    watch_mode_from_argv [OF refl refl refl refl refl,
      where e = "sample_env [''node'', ''brunch'', ''build'']"
        and bc = "sample_brunchConfig False False
         (sample_config\<lparr>browserifyOptions := Some [(''cache'', JNum 1)]\<rparr>)"]
  show ?thesis
    using b by (simp add: sample_env_def)
qed

text \<open>
  C9. The options object passed to the bundler, key by key: the forced values come first
  (\<open>cache\<close> and \<open>packageCache\<close> are empty objects in watch mode, \<open>debug\<close> is \<open>true\<close> with
  source maps), then every key of the host's \<open>browserifyOptions\<close> with the host's value,
  then the default \<open>extensions\<close>. So a host \<open>extensions\<close> replaces the default, a host
  \<open>debug: false\<close> loses against source maps, and host caches lose against watch mode.
\<close>

theorem host_options_copied_then_forced:
  assumes "host = (case browserifyOptions (plugins_anotherBrowserify bc) of
                     None \<Rightarrow> [] | Some ob \<Rightarrow> ob)"
    and "w = watching (argv e)"
  shows "this_browserify (fst (AnotherBrowserifyBrunchPlugin e bc)) = BrowserifyInst (bOptions bc w)
         \<and> thisx_browserify (fst (AnotherBrowserifyBrunchPlugin_exorcist e bc))
             = BrowserifyInst (bOptions bc w)
         \<and> map_of (bOptions bc w) k
             = (if w \<and> (k = ''cache'' \<or> k = ''packageCache'') then Some (JObj [])
                else if sourceMaps bc \<and> k = ''debug'' then Some (JBool True)
                else if js_in k host then map_of host k
                else if k = ''extensions'' then Some (JArr [JStr ''.js'', JStr ''.es6''])
                else None)"
  using assms
  by (auto simp add: constructed_bundler constructed_bundler_exorcist map_of_bOptions Let_def)

theorem host_options_copied_then_forced_witness:
  "this_browserify (fst (AnotherBrowserifyBrunchPlugin (sample_env [''brunch'', ''watch''])
      (sample_brunchConfig True False
         (sample_config\<lparr>browserifyOptions :=
            Some [(''extensions'', JArr [JStr ''.coffee'']), (''debug'', JBool False),
                  (''packageCache'', JNum 5), (''fullPaths'', JBool True)]\<rparr>))))
   = BrowserifyInst
       [(''extensions'', JArr [JStr ''.coffee'']), (''debug'', JBool True),
        (''packageCache'', JObj []), (''fullPaths'', JBool True), (''cache'', JObj [])]
   \<and> map_of (bOptions (sample_brunchConfig True False
         (sample_config\<lparr>browserifyOptions :=
            Some [(''extensions'', JArr [JStr ''.coffee'']), (''debug'', JBool False),
                  (''packageCache'', JNum 5), (''fullPaths'', JBool True)]\<rparr>)) True) ''debug''
     = Some (JBool True)"
proof -
  have b: "bOptions (sample_brunchConfig True False
         (sample_config\<lparr>browserifyOptions :=
            Some [(''extensions'', JArr [JStr ''.coffee'']), (''debug'', JBool False),
                  (''packageCache'', JNum 5), (''fullPaths'', JBool True)]\<rparr>)) True
      = [(''extensions'', JArr [JStr ''.coffee'']), (''debug'', JBool True),
         (''packageCache'', JObj []), (''fullPaths'', JBool True), (''cache'', JObj [])]"
    by (simp add: bOptions_def Let_def sample_brunchConfig_def sample_config_def
        js_keys_def js_get_def js_set_def)
  from host_options_copied_then_forced [OF refl refl,
      where e = "sample_env [''brunch'', ''watch'']"
        and bc = "sample_brunchConfig True False
         (sample_config\<lparr>browserifyOptions :=
            Some [(''extensions'', JArr [JStr ''.coffee'']), (''debug'', JBool False),
                  (''packageCache'', JNum 5), (''fullPaths'', JBool True)]\<rparr>)"
        and k = "''debug''"]
  show ?thesis
    using b by (simp add: sample_env_def)
qed

section \<open>Completion: log lines and the sentinel\<close>

lemma console_lines_append: "console_lines (xs @ ys) = console_lines xs @ console_lines ys"
  by (simp add: console_lines_def)

lemma console_lines_Cons:
  "console_lines (x # xs) = (case x of ConsoleLog l \<Rightarrow> [l] | _ \<Rightarrow> []) @ console_lines xs"
  "console_lines [] = []"
  by (simp_all add: console_lines_def)

lemma console_lines_map_log: "console_lines (map (\<lambda>x. ConsoleLog (g x)) xs) = map g xs"
  by (induction xs) (simp_all add: console_lines_Cons)

lemma touched_append: "touched (xs @ ys) = touched xs @ touched ys"
  by (simp add: touched_def)

lemma touched_Cons:
  "touched (x # xs) = (case x of TouchSync p \<Rightarrow> [p] | _ \<Rightarrow> []) @ touched xs"
  "touched [] = []"
  by (simp_all add: touched_def)

lemma touched_map_log: "touched (map (\<lambda>x. ConsoleLog (g x)) xs) = []"
  by (induction xs) (simp_all add: touched_Cons)

lemma count_map_log:
  "count_list (map (\<lambda>x. ConsoleLog (g x)) xs) BundlerBundle = 0"
  "count_list (map (\<lambda>x. ConsoleLog (g x)) xs) OnFinish = 0"
  by (induction xs) simp_all

lemma quiet_customPipes:
  "console_lines (fst (customPipes fns)) = []" "touched (fst (customPipes fns)) = []"
proof -
  have "\<forall>x \<in> set es. \<exists>n. x = Pipe (Created n) \<Longrightarrow> console_lines es = [] \<and> touched es = []"
    for es
    by (induction es) (auto simp: console_lines_def touched_def)
  from this [of "fst (customPipes fns)"]
  show "console_lines (fst (customPipes fns)) = []" "touched (fst (customPipes fns)) = []"
    by (auto dest: customPipes_only_created)
qed

lemma console_lines_bundle_gulp:
  "console_lines (fst (bundle_gulp this changedFiles)) =
     (if multipleFilesChanged changedFiles
      then [ [Plain ''\<newline>Start'', Cyan (Plain ''bundling'')] ] else [])"
  by (simp add: bundle_gulp_def Let_def console_lines_append console_lines_Cons
      quiet_customPipes split: option.split)

lemma touched_bundle_gulp: "touched (fst (bundle_gulp this changedFiles)) = []"
  by (simp add: bundle_gulp_def Let_def touched_append touched_Cons quiet_customPipes
      split: option.split)

lemma console_lines_bundle_exorcist:
  "console_lines (fst (bundle_exorcist this changedFiles)) =
     (if multipleFilesChanged changedFiles
      then [ [Plain ''\<newline>Start'', Cyan (Plain ''bundling'')] ] else [])"
  by (simp add: bundle_exorcist_def Let_def console_lines_append console_lines_Cons)

lemma touched_bundle_exorcist: "touched (fst (bundle_exorcist this changedFiles)) = []"
  by (simp add: bundle_exorcist_def Let_def touched_append touched_Cons)

lemma started_once:
  assumes "supplies (gulpPipeCreateFns (this_config this)) ns"
  shows "count_list (fst (bundle_gulp this changedFiles)) BundlerBundle = 1"
    and "count_list (fst (bundle_gulp this changedFiles)) OnFinish = 1"
proof -
  have z: "count_list (map (\<lambda>n. Pipe (Created n)) ns) x = 0" if "\<And>n. x \<noteq> Pipe (Created n)" for x
    using that by (induction ns) auto
  show "count_list (fst (bundle_gulp this changedFiles)) BundlerBundle = 1"
    by (simp add: bundle_gulp_supplied [OF assms] z)
  show "count_list (fst (bundle_gulp this changedFiles)) OnFinish = 1"
    by (simp add: bundle_gulp_supplied [OF assms] z)
qed

lemma started_once_exorcist:
  "count_list (fst (bundle_exorcist this changedFiles)) BundlerBundle = 1"
  "count_list (fst (bundle_exorcist this changedFiles)) OnFinish = 1"
  by (simp_all add: bundle_exorcist_def Let_def)

lemma pipeline_run_supplied:
  assumes "supplies (gulpPipeCreateFns (this_config this)) ns"
  shows "pipeline_run e this beginTime changedFiles (Finished endTime)
           = (fst (bundle_gulp this changedFiles)
              @ fst (onFinish_gulp e this beginTime changedFiles endTime),
              snd (onFinish_gulp e this beginTime changedFiles endTime))"
  using bundle_gulp_supplied [OF assms, of changedFiles]
  by (simp add: pipeline_run_def split: prod.splits)

lemma pipeline_run_exorcist_finished:
  "pipeline_run_exorcist e this beginTime changedFiles (Finished endTime)
     = (fst (bundle_exorcist this changedFiles)
        @ fst (onFinish_exorcist e this beginTime changedFiles endTime),
        snd (onFinish_exorcist e this beginTime changedFiles endTime))"
  by (simp add: pipeline_run_exorcist_def bundle_exorcist_def Let_def split: prod.splits)

lemma pipeline_run_errored:
  "touched (fst (pipeline_run e this beginTime changedFiles (Errored msg))) = []"
  using touched_bundle_gulp [of this changedFiles]
  by (auto simp: pipeline_run_def onError_def touched_append touched_Cons
      split: prod.splits option.splits)

lemma pipeline_run_exorcist_errored:
  "touched (fst (pipeline_run_exorcist e this beginTime changedFiles (Errored msg))) = []"
  using touched_bundle_exorcist [of this changedFiles]
  by (auto simp: pipeline_run_exorcist_def onError_def touched_append touched_Cons
      split: prod.splits option.splits)

lemma onFinish_gulp_many:
  assumes "1 < length fs"
  shows "onFinish_gulp e this beginTime (Some fs) endTime =
     (map (\<lambda>changedFile. ConsoleLog [Plain (CHR 0x09 # ''Compiled:''),
                                       Underline (Plain (shortFileName e changedFile))]) fs
      @ [ConsoleLog [Plain ''Finished'', Cyan (Plain ''bundle''), Plain ''in'',
                     Plain (toString (ms_between beginTime endTime) @ ''ms\<newline>'')] ]
      @ (if truthy_string (touchOnCompile (this_config this))
         then [TouchSync (path_resolve e [the (touchOnCompile (this_config this))]),
               ConsoleLog [Plain (CHR 0x09 # ''Triggering browser reload'')] ]
         else []),
      None)"
  using assms by (simp add: onFinish_gulp_def multipleFilesChanged_def Let_def)

lemma onFinish_gulp_one:
  "onFinish_gulp e this beginTime (Some [f]) endTime =
     ([ConsoleLog [Plain (CHR 0x09 # ''Compiled:''), Underline (Plain (shortFileName e f)),
                   Plain ''in'', Plain (toString (ms_between beginTime endTime) @ ''ms'')] ]
      @ (if truthy_string (touchOnCompile (this_config this))
         then [TouchSync (path_resolve e [the (touchOnCompile (this_config this))]),
               ConsoleLog [Plain (CHR 0x09 # ''Triggering browser reload'')] ]
         else []),
      None)"
  by (simp add: onFinish_gulp_def multipleFilesChanged_def Let_def)

lemma onFinish_exorcist_many:
  assumes "1 < length fs"
  shows "onFinish_exorcist e this beginTime (Some fs) endTime =
     ((if truthy_string (touchOnCompile (thisx_config this))
       then [TouchSync (path_resolve e [the (touchOnCompile (thisx_config this))])] else [])
      @ map (\<lambda>changedFile. ConsoleLog [Plain (CHR 0x09 # ''Compiled:''),
                                         Underline (Plain (shortFileName_exorcist e changedFile))]) fs
      @ [ConsoleLog [Plain ''Finished'', Cyan (Plain ''bundle''), Plain ''in'',
                     Plain (toString (ms_between beginTime endTime) @ ''ms\<newline>'')] ],
      None)"
  using assms by (simp add: onFinish_exorcist_def multipleFilesChanged_def Let_def)

lemma onFinish_exorcist_one:
  "onFinish_exorcist e this beginTime (Some [f]) endTime =
     ((if truthy_string (touchOnCompile (thisx_config this))
       then [TouchSync (path_resolve e [the (touchOnCompile (thisx_config this))])] else [])
      @ [ConsoleLog [Plain ''\<newline>Compiled:'', Underline (Plain (shortFileName_exorcist e f)),
                     Plain ''in'', Plain (toString (ms_between beginTime endTime) @ ''ms'')] ],
      None)"
  by (simp add: onFinish_exorcist_def multipleFilesChanged_def Let_def)

text \<open>
  C7. A call of \<open>bundle\<close> with a list of \<open>N > 1\<close> changed files starts the bundler once and
  registers one finish listener; when the pipeline finishes, the log holds the start line,
  then one \<open>Compiled:\<close> line per file in order, then one \<open>Finished bundle in Xms\<close> line.
  With one changed file the log holds one \<open>Compiled: file in Xms\<close> line. The gulp variant
  (for \<open>gulpPipeCreateFns\<close> left out or an array of factories) adds the reload line
  after these when a sentinel is configured.
\<close>

theorem change_notification_logged_once:
  assumes "supplies (gulpPipeCreateFns (this_config this)) ns"
    and "reload = (if truthy_string (touchOnCompile (this_config this))
                   then [ [Plain (CHR 0x09 # ''Triggering browser reload'')] ] else [])"
    and "ms = toString (ms_between beginTime endTime)"
    and "run = pipeline_run e this beginTime"
    and "runx = pipeline_run_exorcist e thisx beginTime"
  shows "(1 < length fs \<longrightarrow>
            snd (run (Some fs) (Finished endTime)) = None
            \<and> count_list (fst (run (Some fs) (Finished endTime))) BundlerBundle = 1
            \<and> count_list (fst (run (Some fs) (Finished endTime))) OnFinish = 1
            \<and> console_lines (fst (run (Some fs) (Finished endTime)))
                = [ [Plain ''\<newline>Start'', Cyan (Plain ''bundling'')] ]
                  @ map (\<lambda>f. [Plain (CHR 0x09 # ''Compiled:''),
                               Underline (Plain (shortFileName e f))]) fs
                  @ [ [Plain ''Finished'', Cyan (Plain ''bundle''), Plain ''in'',
                      Plain (ms @ ''ms\<newline>'')] ]
                  @ reload
            \<and> count_list (fst (runx (Some fs) (Finished endTime))) BundlerBundle = 1
            \<and> count_list (fst (runx (Some fs) (Finished endTime))) OnFinish = 1
            \<and> console_lines (fst (runx (Some fs) (Finished endTime)))
                = [ [Plain ''\<newline>Start'', Cyan (Plain ''bundling'')] ]
                  @ map (\<lambda>f. [Plain (CHR 0x09 # ''Compiled:''),
                               Underline (Plain (shortFileName_exorcist e f))]) fs
                  @ [ [Plain ''Finished'', Cyan (Plain ''bundle''), Plain ''in'',
                      Plain (ms @ ''ms\<newline>'')] ])
         \<and> snd (run (Some [f]) (Finished endTime)) = None
         \<and> count_list (fst (run (Some [f]) (Finished endTime))) BundlerBundle = 1
         \<and> console_lines (fst (run (Some [f]) (Finished endTime)))
             = [ [Plain (CHR 0x09 # ''Compiled:''), Underline (Plain (shortFileName e f)),
                 Plain ''in'', Plain (ms @ ''ms'')] ] @ reload
         \<and> count_list (fst (runx (Some [f]) (Finished endTime))) BundlerBundle = 1
         \<and> console_lines (fst (runx (Some [f]) (Finished endTime)))
             = [ [Plain ''\<newline>Compiled:'', Underline (Plain (shortFileName_exorcist e f)),
                 Plain ''in'', Plain (ms @ ''ms'')] ]"
proof -
  note r = pipeline_run_supplied [OF assms(1)]
  note rx = pipeline_run_exorcist_finished
  note once = started_once [OF assms(1)]
  note lines = console_lines_append console_lines_Cons console_lines_map_log
    console_lines_bundle_gulp console_lines_bundle_exorcist
  have one: "\<not> multipleFilesChanged (Some [f])"
    by (simp add: multipleFilesChanged_def)
  have c1: "snd (run (Some [f]) (Finished endTime)) = None"
    by (simp add: assms(4) r onFinish_gulp_one)
  have c2: "count_list (fst (run (Some [f]) (Finished endTime))) BundlerBundle = 1"
    by (simp add: assms(4) r onFinish_gulp_one once)
  have c3: "console_lines (fst (run (Some [f]) (Finished endTime)))
           = [ [Plain (CHR 0x09 # ''Compiled:''), Underline (Plain (shortFileName e f)),
               Plain ''in'', Plain (ms @ ''ms'')] ] @ reload"
    by (simp add: assms(2,3,4) r onFinish_gulp_one lines one)
  have d2: "count_list (fst (runx (Some [f]) (Finished endTime))) BundlerBundle = 1"
    by (simp add: assms(5) rx onFinish_exorcist_one started_once_exorcist)
  have d3: "console_lines (fst (runx (Some [f]) (Finished endTime)))
           = [ [Plain ''\<newline>Compiled:'', Underline (Plain (shortFileName_exorcist e f)),
               Plain ''in'', Plain (ms @ ''ms'')] ]"
    by (simp add: assms(3,5) rx onFinish_exorcist_one lines one)
  have many: "snd (run (Some fs) (Finished endTime)) = None
            \<and> count_list (fst (run (Some fs) (Finished endTime))) BundlerBundle = 1
            \<and> count_list (fst (run (Some fs) (Finished endTime))) OnFinish = 1
            \<and> console_lines (fst (run (Some fs) (Finished endTime)))
                = [ [Plain ''\<newline>Start'', Cyan (Plain ''bundling'')] ]
                  @ map (\<lambda>f. [Plain (CHR 0x09 # ''Compiled:''),
                               Underline (Plain (shortFileName e f))]) fs
                  @ [ [Plain ''Finished'', Cyan (Plain ''bundle''), Plain ''in'',
                      Plain (ms @ ''ms\<newline>'')] ]
                  @ reload
            \<and> count_list (fst (runx (Some fs) (Finished endTime))) BundlerBundle = 1
            \<and> count_list (fst (runx (Some fs) (Finished endTime))) OnFinish = 1
            \<and> console_lines (fst (runx (Some fs) (Finished endTime)))
                = [ [Plain ''\<newline>Start'', Cyan (Plain ''bundling'')] ]
                  @ map (\<lambda>f. [Plain (CHR 0x09 # ''Compiled:''),
                               Underline (Plain (shortFileName_exorcist e f))]) fs
                  @ [ [Plain ''Finished'', Cyan (Plain ''bundle''), Plain ''in'',
                      Plain (ms @ ''ms\<newline>'')] ]"
    if n: "1 < length fs"
  proof -
    note fin = onFinish_gulp_many [OF n] onFinish_exorcist_many [OF n]
    have m: "multipleFilesChanged (Some fs)"
      using n by (simp add: multipleFilesChanged_def)
    show ?thesis
    proof (intro conjI)
      show "snd (run (Some fs) (Finished endTime)) = None"
        by (simp add: assms(4) r fin)
      show "count_list (fst (run (Some fs) (Finished endTime))) BundlerBundle = 1"
        by (simp add: assms(4) r fin once count_map_log)
      show "count_list (fst (run (Some fs) (Finished endTime))) OnFinish = 1"
        by (simp add: assms(4) r fin once count_map_log)
      show "console_lines (fst (run (Some fs) (Finished endTime)))
                = [ [Plain ''\<newline>Start'', Cyan (Plain ''bundling'')] ]
                  @ map (\<lambda>f. [Plain (CHR 0x09 # ''Compiled:''),
                               Underline (Plain (shortFileName e f))]) fs
                  @ [ [Plain ''Finished'', Cyan (Plain ''bundle''), Plain ''in'',
                      Plain (ms @ ''ms\<newline>'')] ]
                  @ reload"
        by (simp add: assms(2,3,4) r fin lines m)
      show "count_list (fst (runx (Some fs) (Finished endTime))) BundlerBundle = 1"
        by (simp add: assms(5) rx fin started_once_exorcist count_map_log)
      show "count_list (fst (runx (Some fs) (Finished endTime))) OnFinish = 1"
        by (simp add: assms(5) rx fin started_once_exorcist count_map_log)
      show "console_lines (fst (runx (Some fs) (Finished endTime)))
                = [ [Plain ''\<newline>Start'', Cyan (Plain ''bundling'')] ]
                  @ map (\<lambda>f. [Plain (CHR 0x09 # ''Compiled:''),
                               Underline (Plain (shortFileName_exorcist e f))]) fs
                  @ [ [Plain ''Finished'', Cyan (Plain ''bundle''), Plain ''in'',
                      Plain (ms @ ''ms\<newline>'')] ]"
        by (simp add: assms(3,5) rx fin lines m)
    qed
  qed
  from many c1 c2 c3 d2 d3 show ?thesis by blast
qed

lemma toString_1200: "toString 1200 = ''1200''"
  by (simp add: toString_def digits.simps)

theorem change_notification_logged_once_witness:
  "supplies (gulpPipeCreateFns sample_config) []
   \<and> 1 < length [''/home/app/app/a.js'', ''/srv/lib/b.js'']
   \<and> console_lines (fst (pipeline_run (sample_env [''brunch'', ''watch''])
        (fst (AnotherBrowserifyBrunchPlugin (sample_env [''brunch'', ''watch''])
                (sample_brunchConfig False False sample_config)))
        (10, 900000000) (Some [''/home/app/app/a.js'', ''/srv/lib/b.js''])
        (Finished (12, 100000000))))
     = [ [Plain ''\<newline>Start'', Cyan (Plain ''bundling'')],
        [Plain (CHR 0x09 # ''Compiled:''), Underline (Plain ''app/a.js'')],
        [Plain (CHR 0x09 # ''Compiled:''), Underline (Plain ''/srv/lib/b.js'')],
        [Plain ''Finished'', Cyan (Plain ''bundle''), Plain ''in'', Plain ''1200ms\<newline>''] ]
   \<and> console_lines (fst (pipeline_run (sample_env [''brunch'', ''watch''])
        (fst (AnotherBrowserifyBrunchPlugin (sample_env [''brunch'', ''watch''])
                (sample_brunchConfig False False sample_config)))
        (10, 900000000) (Some [''/home/app/app/a.js''])
        (Finished (12, 100000000))))
     = [ [Plain (CHR 0x09 # ''Compiled:''), Underline (Plain ''app/a.js''), Plain ''in'',
         Plain ''1200ms''] ]"
proof -
  have s: "supplies (gulpPipeCreateFns (this_config
      (fst (AnotherBrowserifyBrunchPlugin (sample_env [''brunch'', ''watch''])
              (sample_brunchConfig False False sample_config))))) []"
    by (simp add: constructed_config sample_brunchConfig_def sample_config_def supplies_def)
  have t: "\<not> truthy_string (touchOnCompile (this_config
      (fst (AnotherBrowserifyBrunchPlugin (sample_env [''brunch'', ''watch''])
              (sample_brunchConfig False False sample_config)))))"
    by (simp add: constructed_config sample_brunchConfig_def sample_config_def truthy_string_def)
  have m: "ms_between (10, 900000000) (12, 100000000) = 1200"
    by (simp add: ms_between_def)
  have n: "shortFileName (sample_env [''brunch'', ''watch'']) ''/home/app/app/a.js'' = ''app/a.js''"
    "shortFileName (sample_env [''brunch'', ''watch'']) ''/srv/lib/b.js'' = ''/srv/lib/b.js''"
    by (simp_all add: shortFileName_def stripFromBeginning_prefix sample_env_def)
  from change_notification_logged_once [OF s refl refl refl refl,
      where fs = "[''/home/app/app/a.js'', ''/srv/lib/b.js'']" and f = "''/home/app/app/a.js''"
        and e = "sample_env [''brunch'', ''watch'']" and beginTime = "(10, 900000000)"
        and endTime = "(12, 100000000)"]
  show ?thesis
    using t m n
    by (simp add: toString_1200 sample_config_def supplies_def)
qed

lemma touched_onFinish_gulp:
  assumes "touchOnCompile (this_config this) = Some p" and "p \<noteq> []"
    and "changedFiles \<noteq> Some []"
  shows "touched (fst (onFinish_gulp e this beginTime changedFiles endTime))
           = [path_resolve e [p] ]"
  using assms
  by (cases changedFiles)
     (auto simp: onFinish_gulp_def Let_def truthy_string_def touched_append touched_Cons
        touched_map_log split: list.splits)

lemma touched_onFinish_exorcist:
  assumes "touchOnCompile (thisx_config this) = Some p" and "p \<noteq> []"
  shows "touched (fst (onFinish_exorcist e this beginTime changedFiles endTime))
           = [path_resolve e [p] ]"
  using assms
  by (cases changedFiles)
     (auto simp: onFinish_exorcist_def Let_def truthy_string_def touched_append touched_Cons
        touched_map_log split: list.splits)

text \<open>
  C8, as stated: with a sentinel configured, its modification time strictly increases
  after each run that finishes. The plugin only calls \<open>touch.sync\<close>, which stamps the
  file with the clock's reading. In the run below the pipeline finishes and the sentinel
  is touched, yet a sentinel stamped \<open>20\<close> keeps \<open>20\<close> when the clock still reads \<open>20\<close>,
  and goes back to \<open>9\<close> when the clock reads \<open>9\<close>.
\<close>

theorem sentinel_mtime_not_increased_counterexample:
  "touchOnCompile (this_config
      (fst (AnotherBrowserifyBrunchPlugin (sample_env [''brunch'', ''watch''])
              (sample_brunchConfig False False
                 (sample_config\<lparr>touchOnCompile := Some ''public/.reload''\<rparr>)))))
     = Some ''public/.reload''
   \<and> snd (pipeline_run (sample_env [''brunch'', ''watch''])
           (fst (AnotherBrowserifyBrunchPlugin (sample_env [''brunch'', ''watch''])
              (sample_brunchConfig False False
                 (sample_config\<lparr>touchOnCompile := Some ''public/.reload''\<rparr>))))
           (10, 0) (Some [''/home/app/app/a.js'']) (Finished (11, 0))) = None
   \<and> touched (fst (pipeline_run (sample_env [''brunch'', ''watch''])
           (fst (AnotherBrowserifyBrunchPlugin (sample_env [''brunch'', ''watch''])
              (sample_brunchConfig False False
                 (sample_config\<lparr>touchOnCompile := Some ''public/.reload''\<rparr>))))
           (10, 0) (Some [''/home/app/app/a.js'']) (Finished (11, 0))))
     = [''/home/app/public/.reload'']
   \<and> mtimes_after 20
        (fst (pipeline_run (sample_env [''brunch'', ''watch''])
           (fst (AnotherBrowserifyBrunchPlugin (sample_env [''brunch'', ''watch''])
              (sample_brunchConfig False False
                 (sample_config\<lparr>touchOnCompile := Some ''public/.reload''\<rparr>))))
           (10, 0) (Some [''/home/app/app/a.js'']) (Finished (11, 0))))
        [''/home/app/public/.reload'' \<mapsto> 20] ''/home/app/public/.reload'' = Some 20
   \<and> mtimes_after 9
        (fst (pipeline_run (sample_env [''brunch'', ''watch''])
           (fst (AnotherBrowserifyBrunchPlugin (sample_env [''brunch'', ''watch''])
              (sample_brunchConfig False False
                 (sample_config\<lparr>touchOnCompile := Some ''public/.reload''\<rparr>))))
           (10, 0) (Some [''/home/app/app/a.js'']) (Finished (11, 0))))
        [''/home/app/public/.reload'' \<mapsto> 20] ''/home/app/public/.reload'' = Some 9"
proof -
  define this where "this = fst (AnotherBrowserifyBrunchPlugin (sample_env [''brunch'', ''watch''])
              (sample_brunchConfig False False
                 (sample_config\<lparr>touchOnCompile := Some ''public/.reload''\<rparr>)))"
  have c: "touchOnCompile (this_config this) = Some ''public/.reload''"
    and s: "supplies (gulpPipeCreateFns (this_config this)) []"
    unfolding this_def
    by (simp_all add: constructed_config sample_brunchConfig_def sample_config_def supplies_def)
  have r: "path_resolve (sample_env [''brunch'', ''watch'']) [''public/.reload'']
           = ''/home/app/public/.reload''"
    by (simp add: sample_env_def posix_resolve_def)
  have n: "snd (pipeline_run (sample_env [''brunch'', ''watch'']) this
           (10, 0) (Some [''/home/app/app/a.js'']) (Finished (11, 0))) = None"
    by (simp add: pipeline_run_supplied [OF s] onFinish_gulp_one)
  have t: "touched (fst (pipeline_run (sample_env [''brunch'', ''watch'']) this
           (10, 0) (Some [''/home/app/app/a.js'']) (Finished (11, 0))))
           = [''/home/app/public/.reload'']"
    using touched_onFinish_gulp [OF c, of "Some [''/home/app/app/a.js'']"
        "sample_env [''brunch'', ''watch'']" "(10, 0)" "(11, 0)"] r
    by (simp add: pipeline_run_supplied [OF s] touched_append touched_bundle_gulp)
  have m: "mtimes_after 20 (fst (pipeline_run (sample_env [''brunch'', ''watch'']) this
           (10, 0) (Some [''/home/app/app/a.js'']) (Finished (11, 0))))
        [''/home/app/public/.reload'' \<mapsto> 20] ''/home/app/public/.reload'' = Some 20"
    "mtimes_after 9 (fst (pipeline_run (sample_env [''brunch'', ''watch'']) this
           (10, 0) (Some [''/home/app/app/a.js'']) (Finished (11, 0))))
        [''/home/app/public/.reload'' \<mapsto> 20] ''/home/app/public/.reload'' = Some 9"
    by (simp_all add: mtimes_after_def touch_sync_def t)
  from c n t m show ?thesis unfolding this_def by blast
qed

text \<open>
  C8, amended: with a sentinel configured (a non-empty \<open>touchOnCompile\<close>), a run whose
  pipeline finishes touches the resolved sentinel path exactly once, so the file exists
  afterwards and its modification time is the clock's reading at the touch. A run whose
  bundler stream reports an error touches nothing and leaves every modification time as
  it was. For the gulp variant the finishing case is for \<open>gulpPipeCreateFns\<close> left out or
  an array of factories and for a call without a list of changed files or with a
  non-empty one.
\<close>

theorem sentinel_touched_after_finish_only:
  assumes "touchOnCompile (this_config this) = Some p"
    and "touchOnCompile (thisx_config thisx) = Some p"
    and "p \<noteq> []"
    and "sentinel = path_resolve e [p]"
    and "ok = fst (pipeline_run e this beginTime changedFiles (Finished endTime))"
    and "failed = fst (pipeline_run e this beginTime changedFiles (Errored msg))"
    and "okx = fst (pipeline_run_exorcist e thisx beginTime changedFiles (Finished endTime))"
    and "failedx = fst (pipeline_run_exorcist e thisx beginTime changedFiles (Errored msg))"
  shows "(supplies (gulpPipeCreateFns (this_config this)) ns \<and> changedFiles \<noteq> Some [] \<longrightarrow>
            touched ok = [sentinel]
            \<and> mtimes_after now ok mtime sentinel = Some now)
         \<and> touched failed = [] \<and> mtimes_after now failed mtime = mtime
         \<and> touched okx = [sentinel]
         \<and> mtimes_after now okx mtime sentinel = Some now
         \<and> touched failedx = [] \<and> mtimes_after now failedx mtime = mtime"
proof -
  have f: "touched failed = []"
    using assms(6) by (simp add: pipeline_run_errored)
  have fx: "touched failedx = []"
    using assms(8) by (simp add: pipeline_run_exorcist_errored)
  have x: "touched okx = [sentinel]"
    using assms(4,7)
    by (simp add: pipeline_run_exorcist_finished touched_append touched_bundle_exorcist
        touched_onFinish_exorcist [OF assms(2,3)])
  have g: "touched ok = [sentinel]"
    if "supplies (gulpPipeCreateFns (this_config this)) ns" and "changedFiles \<noteq> Some []"
    using assms(4,5)
    by (simp add: pipeline_run_supplied [OF that(1)] touched_append touched_bundle_gulp
        touched_onFinish_gulp [OF assms(1,3) that(2)])
  have m: "mtimes_after now es mtime sentinel = Some now" if "touched es = [sentinel]" for es
    using that by (simp add: mtimes_after_def touch_sync_def)
  have u: "mtimes_after now es mtime = mtime" if "touched es = []" for es
    using that by (simp add: mtimes_after_def)
  from f fx x g m u show ?thesis by simp
qed

theorem sentinel_touched_after_finish_only_witness:
  "supplies (gulpPipeCreateFns sample_config) []
   \<and> Some [''/home/app/app/a.js''] \<noteq> Some []
   \<and> mtimes_after 9
        (fst (pipeline_run (sample_env [''brunch'', ''watch''])
           (fst (AnotherBrowserifyBrunchPlugin (sample_env [''brunch'', ''watch''])
              (sample_brunchConfig False False
                 (sample_config\<lparr>touchOnCompile := Some ''public/.reload''\<rparr>))))
           (10, 0) (Some [''/home/app/app/a.js'']) (Finished (11, 0))))
        [''/home/app/public/.reload'' \<mapsto> 5] ''/home/app/public/.reload'' = Some 9
   \<and> mtimes_after 9
        (fst (pipeline_run (sample_env [''brunch'', ''watch''])
           (fst (AnotherBrowserifyBrunchPlugin (sample_env [''brunch'', ''watch''])
              (sample_brunchConfig False False
                 (sample_config\<lparr>touchOnCompile := Some ''public/.reload''\<rparr>))))
           (10, 0) (Some [''/home/app/app/a.js'']) (Errored ''SyntaxError'')))
        [''/home/app/public/.reload'' \<mapsto> 5] ''/home/app/public/.reload'' = Some 5"
proof -
  have c: "touchOnCompile (this_config
      (fst (AnotherBrowserifyBrunchPlugin (sample_env [''brunch'', ''watch''])
              (sample_brunchConfig False False
                 (sample_config\<lparr>touchOnCompile := Some ''public/.reload''\<rparr>)))))
      = Some ''public/.reload''"
    and cx: "touchOnCompile (thisx_config
      (fst (AnotherBrowserifyBrunchPlugin_exorcist (sample_env [''brunch'', ''watch''])
              (sample_brunchConfig False False
                 (sample_config\<lparr>touchOnCompile := Some ''public/.reload''\<rparr>)))))
      = Some ''public/.reload''"
    and s: "supplies (gulpPipeCreateFns (this_config
      (fst (AnotherBrowserifyBrunchPlugin (sample_env [''brunch'', ''watch''])
              (sample_brunchConfig False False
                 (sample_config\<lparr>touchOnCompile := Some ''public/.reload''\<rparr>))))))
      []"
    by (simp_all add: constructed_config constructed_exorcist sample_brunchConfig_def
        sample_config_def supplies_def)
  have n: "''public/.reload'' \<noteq> []" by simp
  have r: "path_resolve (sample_env [''brunch'', ''watch'']) [''public/.reload'']
           = ''/home/app/public/.reload''"
    by (simp add: sample_env_def posix_resolve_def)
  from sentinel_touched_after_finish_only [OF c cx n refl refl refl refl refl,
      where e = "sample_env [''brunch'', ''watch'']" and ns = "[]"
        and changedFiles = "Some [''/home/app/app/a.js'']" and now = 9
        and mtime = "[''/home/app/public/.reload'' \<mapsto> 5]" and beginTime = "(10, 0)"
        and endTime = "(11, 0)" and msg = "''SyntaxError''"]
  show ?thesis
    using s r
    by (simp add: sample_config_def supplies_def)
qed

end
